theory Spec2Isabelle
  imports Complex_Main
begin

section \<open>Python numerics used by the animators\<close>

text \<open>
  Frame numbers are Python integers (\<open>int\<close>). The per-slot duration \<open>visemes_parts\<close> and the
  half of \<open>close_motion_duration\<close> are Python floats; they are modelled as exact reals, so the
  rounding error of the float operations themselves is not part of the model.
\<close>

text \<open>Python's builtin \<open>round(x)\<close> on a float: nearest integer, a tie goes to the even one.\<close>

definition py_round :: "real \<Rightarrow> int" where
  "py_round x =
     (let f = \<lfloor>x\<rfloor>; d = x - of_int f
      in if d < 1 / 2 then f
         else if 1 / 2 < d then f + 1
         else if even f then f else f + 1)"

text \<open>Python's \<open>int(x)\<close> on a float: truncation towards zero.\<close>

definition py_int :: "real \<Rightarrow> int" where
  "py_int x = (if 0 \<le> x then \<lfloor>x\<rfloor> else \<lceil>x\<rceil>)"

text \<open>Python's \<open>str.lower()\<close> on the ASCII range, which is where viseme identifiers live.\<close>

definition lower_char :: "char \<Rightarrow> char" where
  "lower_char c =
     (let n = (of_char c :: nat)
      in if 65 \<le> n \<and> n \<le> 90 then char_of (n + 32) else c)"

definition lower :: "string \<Rightarrow> string" where
  "lower s = map lower_char s"

section \<open>Data model\<close>

text \<open>
  \<open>VisemeData\<close> and \<open>WordTiming\<close> are the typed dictionaries of \<open>Core/types.py\<close>, with the keys
  the animators read. A pose asset (\<open>bpy.types.Action\<close>) is identified by its data-block name.
\<close>

record VisemeData =
  visemes :: "string list"
  visemes_len :: int
  visemes_parts :: real

record WordTiming =
  word_frame_start :: int
  word_frame_end :: int

type_synonym BpyAction = string

section \<open>Corrected end frame\<close>

text \<open>\<open>LIPSYNC2D_PoseAssetsAnimator.get_corrected_end_frame\<close> (a static method).\<close>

definition get_corrected_end_frame :: "int \<Rightarrow> VisemeData \<Rightarrow> int" where
  "get_corrected_end_frame word_start_frame visemes_data =
     word_start_frame
       + py_round (visemes_parts visemes_data * of_int (visemes_len visemes_data - 1))"

section \<open>External collaborators\<close>

text \<open>
  The priority table \<open>get_viseme_priority\<close> and the set \<open>UNSKIPPABLE_VISEMES\<close> of
  \<open>Core/phoneme_to_viseme.py\<close>, and the timeline start \<open>LIPSYNC2D_Timeline.get_frame_start()\<close>,
  are parameters of the definitions that use them, under these names.
\<close>

text \<open>
  Modelled from the spec: the module \<open>Core/Timeline/LIPSYNC2D_TimeConversion.py\<close> with
  \<open>time_to_frame\<close> is missing. Section 4.1: seconds are converted to the nearest integer
  frame at the run's fixed frame rate; the function is total and accepts negative values.
\<close>

definition time_to_frame :: "real \<Rightarrow> real \<Rightarrow> int" where
  "time_to_frame fps seconds = py_round (seconds * fps)"

text \<open>
  Modelled from the spec: the module \<open>Core/Animator/LIPSYNC2D_ShapeKeysAnimator.py\<close> is
  missing, and with it the static method \<open>get_corrected_end_frame\<close> that both animators and
  the operator call. Section 4.2, step 4 gives it the formula of the pose-assets animator's
  own static method.
\<close>

definition ShapeKeysAnimator_get_corrected_end_frame :: "int \<Rightarrow> VisemeData \<Rightarrow> int" where
  "ShapeKeysAnimator_get_corrected_end_frame word_start_frame visemes_data =
     word_start_frame
       + py_round (visemes_parts visemes_data * of_int (visemes_len visemes_data - 1))"

section \<open>Object properties\<close>

text \<open>
  The fields of \<open>LIPSYNC2D_PG_CustomProperties\<close> that the animators read. The per-viseme
  properties \<open>lip_sync_2d_viseme_<id>\<close> (a sprite index) and \<open>lip_sync_2d_viseme_pose_<id>\<close>
  (a pose asset, or \<open>None\<close>) are registered for every viseme identifier; they are functions of
  the identifier here.
\<close>

record BpyPropertyGroup =
  lip_sync_2d_viseme :: "string \<Rightarrow> int"
  lip_sync_2d_viseme_pose :: "string \<Rightarrow> BpyAction option"
  lip_sync_2d_prioritize_accuracy :: bool
  lip_sync_2d_in_between_threshold :: real
  lip_sync_2d_sil_threshold :: real
  lip_sync_2d_sps_in_between_threshold :: real
  lip_sync_2d_sps_sil_threshold :: real
  lip_sync_2d_close_motion_duration :: real
  lip_sync_2d_use_clear_keyframes :: bool

section \<open>The pose-assets animator\<close>

text \<open>
  The instance attributes of \<open>LIPSYNC2D_PoseAssetsAnimator\<close>. \<open>self.props\<close> is assigned by
  \<open>setup_properties\<close>, which the operator runs before the first word. The target channelbag
  is kept at the level the scheduler observes: \<open>channelbag a\<close> is the number of its F-curves
  that take a value from pose action \<open>a\<close>, and \<open>keyframes\<close> lists the calls of
  \<open>insert_keyframe_points\<close> in order, each as (frame, pose action).
\<close>

record PoseAssetsAnimator =
  pose_assets_actions :: "string \<Rightarrow> BpyAction option"
  silence_frame_threshold :: int
  in_between_frame_threshold :: int
  previous_start :: int
  previous_viseme :: "string option"
  inserted_keyframes :: nat
  word_end_frame :: int
  word_start_frame :: int
  delay_until_next_word :: int
  is_last_word :: bool
  is_first_word :: bool
  is_last_viseme :: bool
  time_conversion :: "real option"
  close_motion_duration :: int
  props :: BpyPropertyGroup
  channelbag :: "BpyAction \<Rightarrow> nat"
  keyframes :: "(int \<times> BpyAction) list"

definition insert_keyframe_points ::
  "PoseAssetsAnimator \<Rightarrow> BpyAction \<Rightarrow> int \<Rightarrow> PoseAssetsAnimator" where
  "insert_keyframe_points self pose_action frame =
     self\<lparr>keyframes := keyframes self @ [(frame, pose_action)],
          inserted_keyframes := inserted_keyframes self + channelbag self pose_action\<rparr>"

definition has_already_a_kframe :: "PoseAssetsAnimator \<Rightarrow> int \<Rightarrow> bool" where
  "has_already_a_kframe self viseme_frame_start = (viseme_frame_start = previous_start self)"

definition is_prev_kframe_too_close :: "PoseAssetsAnimator \<Rightarrow> int \<Rightarrow> bool" where
  "is_prev_kframe_too_close self viseme_frame_start =
     (0 \<le> previous_start self
      \<and> viseme_frame_start - previous_start self \<le> in_between_frame_threshold self)"

text \<open>\<open>not self.previous_viseme\<close> holds for \<open>None\<close> and for the empty string.\<close>

definition should_skip_due_to_priority_conflict ::
  "(string \<Rightarrow> int) \<Rightarrow> PoseAssetsAnimator \<Rightarrow> string \<Rightarrow> int \<Rightarrow> bool" where
  "should_skip_due_to_priority_conflict get_viseme_priority self current_viseme frame =
     (case previous_viseme self of
        None \<Rightarrow> False
      | Some pv \<Rightarrow>
          if has_already_a_kframe self frame \<and> pv \<noteq> []
          then get_viseme_priority pv < get_viseme_priority current_viseme
          else False)"

definition is_redundant :: "PoseAssetsAnimator \<Rightarrow> BpyPropertyGroup \<Rightarrow> string \<Rightarrow> bool" where
  "is_redundant self ps v =
     (case previous_viseme self of
        None \<Rightarrow> False
      | Some pv \<Rightarrow>
          if pv = ''sil'' then False
          else lip_sync_2d_viseme_pose ps pv = lip_sync_2d_viseme_pose ps v)"

definition should_skip_due_to_timing :: "string set \<Rightarrow> BpyPropertyGroup \<Rightarrow> string \<Rightarrow> bool" where
  "should_skip_due_to_timing UNSKIPPABLE_VISEMES ps v =
     (let force_lips_contact = lip_sync_2d_prioritize_accuracy ps;
          is_unskippable = (lower v \<in> UNSKIPPABLE_VISEMES)
      in if force_lips_contact then \<not> is_unskippable else True)"

definition should_skip_keyframe ::
  "(string \<Rightarrow> int) \<Rightarrow> string set \<Rightarrow> PoseAssetsAnimator \<Rightarrow> BpyPropertyGroup \<Rightarrow> string \<Rightarrow> int
     \<Rightarrow> bool" where
  "should_skip_keyframe get_viseme_priority UNSKIPPABLE_VISEMES self ps v viseme_frame_start =
     (if should_skip_due_to_priority_conflict get_viseme_priority self v viseme_frame_start
      then True
      else if is_redundant self ps v then True
      else if is_prev_kframe_too_close self viseme_frame_start
      then should_skip_due_to_timing UNSKIPPABLE_VISEMES ps v
      else False)"

text \<open>
  The same method with the checks it calls recorded in call order, next to its result.
\<close>

datatype skip_check =
  Should_skip_due_to_priority_conflict
  | Has_already_a_kframe
  | Is_redundant
  | Is_prev_kframe_too_close

definition should_skip_keyframe_calls ::
  "(string \<Rightarrow> int) \<Rightarrow> string set \<Rightarrow> PoseAssetsAnimator \<Rightarrow> BpyPropertyGroup \<Rightarrow> string \<Rightarrow> int
     \<Rightarrow> skip_check list \<times> bool" where
  "should_skip_keyframe_calls get_viseme_priority UNSKIPPABLE_VISEMES self ps v
       viseme_frame_start =
     (if should_skip_due_to_priority_conflict get_viseme_priority self v viseme_frame_start
      then ([Should_skip_due_to_priority_conflict], True)
      else if is_redundant self ps v
      then ([Should_skip_due_to_priority_conflict, Is_redundant], True)
      else if is_prev_kframe_too_close self viseme_frame_start
      then ([Should_skip_due_to_priority_conflict, Is_redundant, Is_prev_kframe_too_close],
            should_skip_due_to_timing UNSKIPPABLE_VISEMES ps v)
      else ([Should_skip_due_to_priority_conflict, Is_redundant, Is_prev_kframe_too_close],
            False))"

text \<open>
  \<open>insert_silences\<close>. Every frame of the end-of-word branch is an integer, so \<open>int(frame)\<close>
  changes nothing there; the start-of-utterance frame involves the float
  \<open>close_motion_duration / 2\<close> and is truncated by \<open>int\<close>.
\<close>

definition insert_silences ::
  "int \<Rightarrow> PoseAssetsAnimator \<Rightarrow> VisemeData \<Rightarrow> PoseAssetsAnimator" where
  "insert_silences get_frame_start self visemes_data =
     (let add_sil_at_word_end =
            (silence_frame_threshold self < delay_until_next_word self \<or> is_last_word self)
      in case lip_sync_2d_viseme_pose (props self) ''sil'' of
           None \<Rightarrow> self
         | Some action \<Rightarrow>
             (let self1 =
                (if add_sil_at_word_end then
                   (let corrected_word_end_frame =
                          ShapeKeysAnimator_get_corrected_end_frame
                            (word_start_frame self) visemes_data
                    in if \<not> is_last_word self then
                         insert_keyframe_points
                           (insert_keyframe_points self action
                              (corrected_word_end_frame
                                 + max 1 (min (delay_until_next_word self
                                                 - in_between_frame_threshold self)
                                              (close_motion_duration self))))
                           action
                           (corrected_word_end_frame + delay_until_next_word self
                              - max 1 (in_between_frame_threshold self))
                       else
                         insert_keyframe_points self action
                           (corrected_word_end_frame + close_motion_duration self))
                 else self)
              in if is_first_word self1 then
                   insert_keyframe_points self1 action
                     (py_int (max (of_int get_frame_start)
                                  (of_int (word_start_frame self1)
                                     - max 1 (of_int (close_motion_duration self1) / 2))))
                 else self1))"

text \<open>
  \<open>_insert_on_visemes\<close> together with the loop of \<open>insert_keyframes\<close> that consumes it: each
  yielded item is applied by \<open>insert_keyframe_points\<close> before the generator resumes and
  stores \<open>previous_start\<close> and \<open>previous_viseme\<close>. The placeholder item the generator yields
  for an object that is no armature has \<open>action = None\<close>, which the consuming loop drops.
  The argument \<open>viseme_index\<close> is the position \<open>enumerate\<close> has reached.
\<close>

fun insert_on_visemes ::
  "(string \<Rightarrow> int) \<Rightarrow> string set \<Rightarrow> BpyPropertyGroup \<Rightarrow> VisemeData \<Rightarrow> WordTiming
     \<Rightarrow> nat \<Rightarrow> string list \<Rightarrow> PoseAssetsAnimator \<Rightarrow> PoseAssetsAnimator" where
  "insert_on_visemes get_viseme_priority UNSKIPPABLE_VISEMES ps visemes_data word_timing
       viseme_index [] self = self"
| "insert_on_visemes get_viseme_priority UNSKIPPABLE_VISEMES ps visemes_data word_timing
       viseme_index (v # vs) self =
     (let self1 = self\<lparr>is_last_viseme :=
                         (int viseme_index + 1 = visemes_len visemes_data)\<rparr>;
          viseme_frame_start =
            word_frame_start word_timing
              + py_round (of_nat viseme_index * visemes_parts visemes_data)
      in case pose_assets_actions self1 v of
           None \<Rightarrow>
             insert_on_visemes get_viseme_priority UNSKIPPABLE_VISEMES ps visemes_data
               word_timing (Suc viseme_index) vs self1
         | Some action \<Rightarrow>
             if should_skip_keyframe get_viseme_priority UNSKIPPABLE_VISEMES self1 ps v
                  viseme_frame_start
             then insert_on_visemes get_viseme_priority UNSKIPPABLE_VISEMES ps visemes_data
                    word_timing (Suc viseme_index) vs self1
             else insert_on_visemes get_viseme_priority UNSKIPPABLE_VISEMES ps visemes_data
                    word_timing (Suc viseme_index) vs
                    ((insert_keyframe_points self1 action viseme_frame_start)
                       \<lparr>previous_start := viseme_frame_start, previous_viseme := Some v\<rparr>))"

text \<open>The block of \<open>insert_keyframes\<close> that initialises the word properties.\<close>

definition set_word_properties ::
  "PoseAssetsAnimator \<Rightarrow> WordTiming \<Rightarrow> int \<Rightarrow> bool \<Rightarrow> nat \<Rightarrow> PoseAssetsAnimator" where
  "set_word_properties self word_timing delay is_last word_index =
     self\<lparr>word_end_frame := word_frame_end word_timing,
          word_start_frame := word_frame_start word_timing,
          delay_until_next_word := max 0 delay,
          is_last_word := is_last,
          is_first_word := (word_index = 0)\<rparr>"

definition insert_keyframes ::
  "(string \<Rightarrow> int) \<Rightarrow> string set \<Rightarrow> int \<Rightarrow> BpyPropertyGroup \<Rightarrow> VisemeData \<Rightarrow> WordTiming
     \<Rightarrow> int \<Rightarrow> bool \<Rightarrow> nat \<Rightarrow> PoseAssetsAnimator \<Rightarrow> PoseAssetsAnimator" where
  "insert_keyframes get_viseme_priority UNSKIPPABLE_VISEMES get_frame_start ps visemes_data
       word_timing delay is_last word_index self =
     insert_on_visemes get_viseme_priority UNSKIPPABLE_VISEMES ps visemes_data word_timing
       0 (visemes visemes_data)
       (insert_silences get_frame_start
          (set_word_properties self word_timing delay is_last word_index) visemes_data)"

text \<open>
  \<open>setup_properties\<close>. \<open>scene_render\<close> is the frame rate of \<open>bpy.context.scene.render\<close>, or
  \<open>None\<close> when there is no scene; the time conversion object is reduced to that rate.
\<close>

definition setup_properties ::
  "real option \<Rightarrow> BpyPropertyGroup \<Rightarrow> PoseAssetsAnimator \<Rightarrow> PoseAssetsAnimator" where
  "setup_properties scene_render obj_props self =
     (let self1 =
            (case scene_render of
               None \<Rightarrow> self
             | Some fps \<Rightarrow>
                 self\<lparr>time_conversion := Some fps,
                      close_motion_duration :=
                        time_to_frame fps (lip_sync_2d_close_motion_duration obj_props)\<rparr>)
      in case time_conversion self1 of
           None \<Rightarrow> self1
         | Some fps \<Rightarrow>
             self1\<lparr>silence_frame_threshold :=
                      time_to_frame fps (lip_sync_2d_sil_threshold obj_props),
                    in_between_frame_threshold :=
                      time_to_frame fps (lip_sync_2d_in_between_threshold obj_props),
                    previous_start := - 1,
                    previous_viseme := None,
                    inserted_keyframes := 0,
                    props := obj_props\<rparr>)"

text \<open>
  \<open>get_available_actions\<close>: the configured pose of every viseme identifier listed by
  \<open>viseme_items_mpeg4_v2\<close> (a table of \<open>phoneme_to_viseme\<close>, given by its identifiers).
\<close>

definition get_available_actions ::
  "string list \<Rightarrow> PoseAssetsAnimator \<Rightarrow> string \<Rightarrow> BpyAction option" where
  "get_available_actions viseme_items self =
     (\<lambda>enum_id. if enum_id \<in> set viseme_items
                then lip_sync_2d_viseme_pose (props self) enum_id else None)"

text \<open>
  \<open>__init__\<close>. The attributes it only declares (\<open>pose_assets_actions\<close>, \<open>channelbag\<close>, \<open>props\<close>)
  hold placeholders until \<open>setup\<close> assigns them.
\<close>

definition PoseAssetsAnimator_init :: "BpyPropertyGroup \<Rightarrow> PoseAssetsAnimator" where
  "PoseAssetsAnimator_init obj_props =
     \<lparr>pose_assets_actions = (\<lambda>_. None),
      silence_frame_threshold = - 1,
      in_between_frame_threshold = - 1,
      previous_start = - 1,
      previous_viseme = None,
      inserted_keyframes = 0,
      word_end_frame = - 1,
      word_start_frame = - 1,
      delay_until_next_word = - 1,
      is_last_word = False,
      is_first_word = False,
      is_last_viseme = False,
      time_conversion = None,
      close_motion_duration = - 1,
      props = obj_props,
      channelbag = (\<lambda>_. 0),
      keyframes = []\<rparr>"

text \<open>
  \<open>setup\<close> for an armature object: \<open>setup_properties\<close>, then \<open>setup_animation_properties\<close>,
  whose \<open>setup_fcurves\<close> stores the available pose actions and the channelbag that Blender
  hands out (\<open>target_channelbag\<close>).
\<close>

definition PoseAssetsAnimator_setup ::
  "string list \<Rightarrow> real option \<Rightarrow> BpyPropertyGroup \<Rightarrow> (BpyAction \<Rightarrow> nat)
     \<Rightarrow> PoseAssetsAnimator \<Rightarrow> PoseAssetsAnimator" where
  "PoseAssetsAnimator_setup viseme_items scene_render obj_props target_channelbag self =
     (let self1 = setup_properties scene_render obj_props self
      in self1\<lparr>pose_assets_actions := get_available_actions viseme_items self1,
               channelbag := target_channelbag\<rparr>)"

text \<open>
  The order of the skip checks in the words of the specification (section 4.3, step 6):
  the conflict check (of either animator), then redundancy, then minimum spacing. A list
  of calls follows that order when it is an initial segment of it.
\<close>

fun check_rank :: "skip_check \<Rightarrow> nat" where
  "check_rank Should_skip_due_to_priority_conflict = 0"
| "check_rank Has_already_a_kframe = 0"
| "check_rank Is_redundant = 1"
| "check_rank Is_prev_kframe_too_close = 2"

definition follows_spec_order :: "skip_check list \<Rightarrow> bool" where
  "follows_spec_order calls = (map check_rank calls = [0..<length calls])"

section \<open>The sprite-sheet animator\<close>

text \<open>
  The instance attributes of \<open>LIPSYNC_SpriteSheetAnimator\<close>, prefixed with \<open>sps_\<close>. The
  channelbag is the list of its F-curves (their data paths); \<open>sps_keyframes\<close> lists the calls
  of \<open>fcurve.keyframe_points.insert\<close> in order, each as (F-curve, frame, value).
\<close>

record SpriteSheetAnimator =
  sps_inserted_keyframes :: nat
  sps_silence_frame_threshold :: int
  sps_in_between_frame_threshold :: int
  sps_previous_start :: int
  sps_previous_viseme :: "string option"
  sps_word_end_frame :: int
  sps_word_start_frame :: int
  sps_delay_until_next_word :: int
  sps_is_last_word :: bool
  sps_is_first_word :: bool
  sps_is_last_viseme :: bool
  sps_time_conversion :: "real option"
  sps_channelbag :: "string list"
  sps_keyframes :: "(string \<times> int \<times> int) list"

definition sps_has_already_a_kframe :: "SpriteSheetAnimator \<Rightarrow> int \<Rightarrow> bool" where
  "sps_has_already_a_kframe self viseme_frame_start =
     (viseme_frame_start = sps_previous_start self)"

definition sps_is_prev_kframe_too_close :: "SpriteSheetAnimator \<Rightarrow> int \<Rightarrow> bool" where
  "sps_is_prev_kframe_too_close self viseme_frame_start =
     (0 \<le> sps_previous_start self
      \<and> viseme_frame_start - sps_previous_start self \<le> sps_in_between_frame_threshold self)"

text \<open>
  \<open>is_redundant\<close> of the sprite-sheet animator returns \<open>False\<close> from its guard and otherwise
  falls off its end, which returns \<open>None\<close>. \<open>truthy\<close> is how the \<open>or\<close> chain and the \<open>if\<close> of
  \<open>_insert_on_visemes\<close> read that result.
\<close>

definition sps_is_redundant ::
  "SpriteSheetAnimator \<Rightarrow> BpyPropertyGroup \<Rightarrow> string \<Rightarrow> bool option" where
  "sps_is_redundant self ps v =
     (case sps_previous_viseme self of
        None \<Rightarrow> Some False
      | Some pv \<Rightarrow> if pv = ''sil'' then Some False else None)"

fun truthy :: "bool option \<Rightarrow> bool" where
  "truthy None = False"
| "truthy (Some b) = b"

text \<open>The condition of the \<open>if\<close> in \<open>_insert_on_visemes\<close> that ends in \<open>continue\<close>.\<close>

definition sps_should_skip ::
  "SpriteSheetAnimator \<Rightarrow> BpyPropertyGroup \<Rightarrow> string \<Rightarrow> int \<Rightarrow> bool" where
  "sps_should_skip self ps v viseme_frame_start =
     (if sps_has_already_a_kframe self viseme_frame_start then True
      else if sps_is_prev_kframe_too_close self viseme_frame_start then True
      else truthy (sps_is_redundant self ps v))"

text \<open>The same condition with the checks it calls recorded in call order.\<close>

definition sps_should_skip_calls ::
  "SpriteSheetAnimator \<Rightarrow> BpyPropertyGroup \<Rightarrow> string \<Rightarrow> int \<Rightarrow> skip_check list \<times> bool" where
  "sps_should_skip_calls self ps v viseme_frame_start =
     (if sps_has_already_a_kframe self viseme_frame_start
      then ([Has_already_a_kframe], True)
      else if sps_is_prev_kframe_too_close self viseme_frame_start
      then ([Has_already_a_kframe, Is_prev_kframe_too_close], True)
      else ([Has_already_a_kframe, Is_prev_kframe_too_close, Is_redundant],
            truthy (sps_is_redundant self ps v)))"

text \<open>One \<open>fcurve.keyframe_points.insert(frame, value=value)\<close>.\<close>

definition sps_keyframe_insert ::
  "SpriteSheetAnimator \<Rightarrow> string \<Rightarrow> int \<Rightarrow> int \<Rightarrow> SpriteSheetAnimator" where
  "sps_keyframe_insert self fcurve frame v =
     self\<lparr>sps_keyframes := sps_keyframes self @ [(fcurve, frame, v)]\<rparr>"

definition sps_count :: "SpriteSheetAnimator \<Rightarrow> SpriteSheetAnimator" where
  "sps_count self = self\<lparr>sps_inserted_keyframes := sps_inserted_keyframes self + 1\<rparr>"

text \<open>The two loops over the F-curves in \<open>insert_silences\<close>.\<close>

fun sps_word_end_loop ::
  "BpyPropertyGroup \<Rightarrow> VisemeData \<Rightarrow> string list \<Rightarrow> SpriteSheetAnimator \<Rightarrow> SpriteSheetAnimator"
  where
  "sps_word_end_loop ps visemes_data [] self = self"
| "sps_word_end_loop ps visemes_data (fcurve # fcurves) self =
     (let v = lip_sync_2d_viseme ps ''sil'';
          corrected_word_end_frame =
            ShapeKeysAnimator_get_corrected_end_frame (sps_word_start_frame self) visemes_data;
          frame = corrected_word_end_frame + sps_in_between_frame_threshold self;
          self1 = sps_count (sps_keyframe_insert self fcurve frame v);
          self2 =
            (if sps_is_last_word self1 then
               sps_count
                 (sps_keyframe_insert self1 fcurve
                    (corrected_word_end_frame + sps_in_between_frame_threshold self1) v)
             else self1)
      in sps_word_end_loop ps visemes_data fcurves self2)"

fun sps_first_word_loop ::
  "int \<Rightarrow> BpyPropertyGroup \<Rightarrow> string list \<Rightarrow> SpriteSheetAnimator \<Rightarrow> SpriteSheetAnimator" where
  "sps_first_word_loop get_frame_start ps [] self = self"
| "sps_first_word_loop get_frame_start ps (fcurve # fcurves) self =
     (let v = lip_sync_2d_viseme ps ''sil'';
          frame = max get_frame_start
                      (sps_word_start_frame self - max 1 (sps_in_between_frame_threshold self))
      in sps_first_word_loop get_frame_start ps fcurves
           (sps_keyframe_insert self fcurve frame v))"

definition sps_insert_silences ::
  "int \<Rightarrow> SpriteSheetAnimator \<Rightarrow> BpyPropertyGroup \<Rightarrow> VisemeData \<Rightarrow> SpriteSheetAnimator" where
  "sps_insert_silences get_frame_start self ps visemes_data =
     (let add_sil_at_word_end =
            (sps_silence_frame_threshold self < sps_delay_until_next_word self
             \<or> sps_is_last_word self);
          self1 = (if add_sil_at_word_end
                   then sps_word_end_loop ps visemes_data (sps_channelbag self) self
                   else self)
      in if sps_is_first_word self1
         then sps_first_word_loop get_frame_start ps (sps_channelbag self1) self1
         else self1)"

text \<open>The inner loop of \<open>insert_keyframes\<close>: one insertion per F-curve for a yielded item.\<close>

fun sps_apply_item ::
  "int \<Rightarrow> int \<Rightarrow> string list \<Rightarrow> SpriteSheetAnimator \<Rightarrow> SpriteSheetAnimator" where
  "sps_apply_item frame v [] self = self"
| "sps_apply_item frame v (fcurve # fcurves) self =
     sps_apply_item frame v fcurves (sps_count (sps_keyframe_insert self fcurve frame v))"

text \<open>
  \<open>_insert_on_visemes\<close> together with the loop of \<open>insert_keyframes\<close> that consumes it.
\<close>

fun sps_insert_on_visemes ::
  "BpyPropertyGroup \<Rightarrow> VisemeData \<Rightarrow> WordTiming \<Rightarrow> nat \<Rightarrow> string list
     \<Rightarrow> SpriteSheetAnimator \<Rightarrow> SpriteSheetAnimator" where
  "sps_insert_on_visemes ps visemes_data word_timing viseme_index [] self = self"
| "sps_insert_on_visemes ps visemes_data word_timing viseme_index (v # vs) self =
     (let self1 = self\<lparr>sps_is_last_viseme :=
                         (int viseme_index + 1 = visemes_len visemes_data)\<rparr>;
          viseme_frame_start =
            word_frame_start word_timing
              + py_round (of_nat viseme_index * visemes_parts visemes_data);
          sprite_index = lip_sync_2d_viseme ps v
      in if sps_should_skip self1 ps v viseme_frame_start
         then sps_insert_on_visemes ps visemes_data word_timing (Suc viseme_index) vs self1
         else sps_insert_on_visemes ps visemes_data word_timing (Suc viseme_index) vs
                ((sps_apply_item viseme_frame_start sprite_index (sps_channelbag self1) self1)
                   \<lparr>sps_previous_start := viseme_frame_start,
                     sps_previous_viseme := Some v\<rparr>))"

text \<open>The block of \<open>insert_keyframes\<close> that initialises the word properties.\<close>

definition sps_set_word_properties ::
  "SpriteSheetAnimator \<Rightarrow> WordTiming \<Rightarrow> int \<Rightarrow> bool \<Rightarrow> nat \<Rightarrow> SpriteSheetAnimator" where
  "sps_set_word_properties self word_timing delay is_last word_index =
     self\<lparr>sps_word_end_frame := word_frame_end word_timing,
          sps_word_start_frame := word_frame_start word_timing,
          sps_delay_until_next_word := max 0 delay,
          sps_is_last_word := is_last,
          sps_is_first_word := (word_index = 0)\<rparr>"

definition sps_insert_keyframes ::
  "int \<Rightarrow> BpyPropertyGroup \<Rightarrow> VisemeData \<Rightarrow> WordTiming \<Rightarrow> int \<Rightarrow> bool \<Rightarrow> nat
     \<Rightarrow> SpriteSheetAnimator \<Rightarrow> SpriteSheetAnimator" where
  "sps_insert_keyframes get_frame_start ps visemes_data word_timing delay is_last word_index
       self =
     sps_insert_on_visemes ps visemes_data word_timing 0 (visemes visemes_data)
       (sps_insert_silences get_frame_start
          (sps_set_word_properties self word_timing delay is_last word_index) ps visemes_data)"

definition sps_setup_properties ::
  "real option \<Rightarrow> BpyPropertyGroup \<Rightarrow> SpriteSheetAnimator \<Rightarrow> SpriteSheetAnimator" where
  "sps_setup_properties scene_render obj_props self =
     (let self1 =
            (case scene_render of
               None \<Rightarrow> self
             | Some fps \<Rightarrow> self\<lparr>sps_time_conversion := Some fps\<rparr>)
      in case sps_time_conversion self1 of
           None \<Rightarrow> self1
         | Some fps \<Rightarrow>
             self1\<lparr>sps_silence_frame_threshold :=
                      time_to_frame fps (lip_sync_2d_sps_sil_threshold obj_props),
                    sps_in_between_frame_threshold :=
                      max 1 (time_to_frame fps
                               (lip_sync_2d_sps_in_between_threshold obj_props)),
                    sps_previous_start := - 1,
                    sps_previous_viseme := None,
                    sps_inserted_keyframes := 0\<rparr>)"

text \<open>\<open>__init__\<close>; the channelbag is assigned by \<open>setup\<close>.\<close>

definition SpriteSheetAnimator_init :: SpriteSheetAnimator where
  "SpriteSheetAnimator_init =
     \<lparr>sps_inserted_keyframes = 0,
      sps_silence_frame_threshold = - 1,
      sps_in_between_frame_threshold = - 1,
      sps_previous_start = - 1,
      sps_previous_viseme = None,
      sps_word_end_frame = - 1,
      sps_word_start_frame = - 1,
      sps_delay_until_next_word = - 1,
      sps_is_last_word = False,
      sps_is_first_word = False,
      sps_is_last_viseme = False,
      sps_time_conversion = None,
      sps_channelbag = [],
      sps_keyframes = []\<rparr>"

text \<open>
  \<open>setup\<close> for a mesh object: \<open>setup_animation_properties\<close>, whose \<open>setup_fcurves\<close> clears the
  channelbag's F-curves on request and makes sure the one for the sprite index exists, then
  \<open>setup_properties\<close>. \<open>existing_fcurves\<close> are the F-curves the channelbag held before.
\<close>

definition sps_setup_fcurves :: "BpyPropertyGroup \<Rightarrow> string list \<Rightarrow> string list" where
  "sps_setup_fcurves obj_props existing_fcurves =
     (let data_path = ''lipsync2d_props.lip_sync_2d_sprite_sheet_index'';
          fcurves = (if lip_sync_2d_use_clear_keyframes obj_props then []
                     else existing_fcurves)
      in if data_path \<in> set fcurves then fcurves else fcurves @ [data_path])"

definition sps_setup ::
  "real option \<Rightarrow> BpyPropertyGroup \<Rightarrow> string list \<Rightarrow> SpriteSheetAnimator
     \<Rightarrow> SpriteSheetAnimator" where
  "sps_setup scene_render obj_props existing_fcurves self =
     sps_setup_properties scene_render obj_props
       (self\<lparr>sps_channelbag := sps_setup_fcurves obj_props existing_fcurves\<rparr>)"

section \<open>Events emitted by a pass\<close>

text \<open>
  What a pass appended to the keyframe list: the list after it, without the entries that were
  there before it.
\<close>

definition emitted ::
  "PoseAssetsAnimator \<Rightarrow> PoseAssetsAnimator \<Rightarrow> (int \<times> BpyAction) list" where
  "emitted before after = drop (length (keyframes before)) (keyframes after)"

definition sps_emitted ::
  "SpriteSheetAnimator \<Rightarrow> SpriteSheetAnimator \<Rightarrow> (string \<times> int \<times> int) list" where
  "sps_emitted before after = drop (length (sps_keyframes before)) (sps_keyframes after)"

section \<open>The sequence driver\<close>

text \<open>
  \<open>LIPSYNC2D_OT_AnalyzeAudio.auto_insert_keyframes\<close>. The dialog inspector is an external
  collaborator: an \<open>InspectedWord\<close> holds what \<open>get_word_timing\<close>, \<open>get_visemes\<close> and
  \<open>get_next_word_timing\<close> return for one recognised word. The animator is reached through
  its \<open>insert_keyframes\<close> method only, which is the first argument; \<open>index\<close> is the position
  \<open>enumerate\<close> has reached.
\<close>

record InspectedWord =
  word_timing :: WordTiming
  visemes_data :: VisemeData
  next_word_timing :: WordTiming

fun auto_insert_keyframes ::
  "(VisemeData \<Rightarrow> WordTiming \<Rightarrow> int \<Rightarrow> bool \<Rightarrow> nat \<Rightarrow> 'a \<Rightarrow> 'a) \<Rightarrow> nat \<Rightarrow> nat
     \<Rightarrow> InspectedWord list \<Rightarrow> 'a \<Rightarrow> 'a" where
  "auto_insert_keyframes auto_obj_insert_keyframes total_words index [] auto_obj = auto_obj"
| "auto_insert_keyframes auto_obj_insert_keyframes total_words index (w # ws) auto_obj =
     (let is_last_word = (int index = int total_words - 1);
          corrected_word_end_frame =
            ShapeKeysAnimator_get_corrected_end_frame
              (word_frame_start (word_timing w)) (visemes_data w);
          delay_until_next_word =
            word_frame_start (next_word_timing w) - corrected_word_end_frame
      in auto_insert_keyframes auto_obj_insert_keyframes total_words (Suc index) ws
           (auto_obj_insert_keyframes (visemes_data w) (word_timing w) delay_until_next_word
              is_last_word index auto_obj))"

section \<open>A concrete configuration\<close>

text \<open>
  An object with poses and sprite indices for silence and four visemes (\<open>aa\<close> and \<open>O\<close> share
  theirs), the add-on's default
  thresholds (0.0417 s between keyframes, 0.22 s of silence, 0.2 s of closing motion), and a
  scene at 24 frames per second; a priority table and an unskippable set for those visemes.
\<close>

definition example_props :: BpyPropertyGroup where
  "example_props =
     \<lparr>lip_sync_2d_viseme =
        (\<lambda>v. if v = ''sil'' then 0 else if v = ''PP'' then 1 else if v = ''FF'' then 3
              else if v = ''aa'' then 2 else if v = ''O'' then 2 else - 1),
      lip_sync_2d_viseme_pose =
        (\<lambda>v. if v = ''sil'' then Some ''pose_sil''
              else if v = ''PP'' then Some ''pose_PP''
              else if v = ''FF'' then Some ''pose_FF''
              else if v = ''aa'' then Some ''pose_aa''
              else if v = ''O'' then Some ''pose_aa''
              else None),
      lip_sync_2d_prioritize_accuracy = False,
      lip_sync_2d_in_between_threshold = 417 / 10000,
      lip_sync_2d_sil_threshold = 22 / 100,
      lip_sync_2d_sps_in_between_threshold = 417 / 10000,
      lip_sync_2d_sps_sil_threshold = 22 / 100,
      lip_sync_2d_close_motion_duration = 2 / 10,
      lip_sync_2d_use_clear_keyframes = True\<rparr>"

definition example_viseme_items :: "string list" where
  "example_viseme_items = [''sil'', ''PP'', ''FF'', ''aa'', ''O'']"

definition example_priority :: "string \<Rightarrow> int" where
  "example_priority v = (if v = ''PP'' then 1 else if v = ''FF'' then 2 else 3)"

definition example_unskippable :: "string set" where
  "example_unskippable = {''pp'', ''ff''}"

text \<open>
  A word of one frame (frames 10 to 11) with two viseme slots of half a frame each: both slots
  fall on frame 10, since \<open>round(0.5) = 0\<close>.
\<close>

definition example_word :: VisemeData where
  "example_word = \<lparr>visemes = [''aa'', ''PP''], visemes_len = 2, visemes_parts = 1 / 2\<rparr>"

definition example_timing :: WordTiming where
  "example_timing = \<lparr>word_frame_start = 10, word_frame_end = 11\<rparr>"

text \<open>A target channelbag in which every pose action drives one F-curve.\<close>

definition example_channelbag :: "BpyAction \<Rightarrow> nat" where
  "example_channelbag pose_action = 1"

definition example_animator :: PoseAssetsAnimator where
  "example_animator =
     PoseAssetsAnimator_setup example_viseme_items (Some 24) example_props example_channelbag
       (PoseAssetsAnimator_init example_props)"

text \<open>The same object without a pose for silence.\<close>

definition example_props_no_sil :: BpyPropertyGroup where
  "example_props_no_sil =
     example_props\<lparr>lip_sync_2d_viseme_pose :=
                     (\<lambda>v. if v = ''sil'' then None
                           else lip_sync_2d_viseme_pose example_props v)\<rparr>"

definition example_animator_no_sil :: PoseAssetsAnimator where
  "example_animator_no_sil =
     PoseAssetsAnimator_setup example_viseme_items (Some 24) example_props_no_sil
       example_channelbag (PoseAssetsAnimator_init example_props_no_sil)"

text \<open>The same object with \<open>prioritize_accuracy\<close> switched on.\<close>

definition example_props_accuracy :: BpyPropertyGroup where
  "example_props_accuracy = example_props\<lparr>lip_sync_2d_prioritize_accuracy := True\<rparr>"

text \<open>The same object with both thresholds set to minus one second.\<close>

definition example_props_negative :: BpyPropertyGroup where
  "example_props_negative =
     example_props\<lparr>lip_sync_2d_in_between_threshold := - 1,
                   lip_sync_2d_sil_threshold := - 1\<rparr>"

text \<open>
  The animator set up for that object at 24 frames per second, and the animator set up for
  the default object in a scene at minus 24 frames per second.
\<close>

definition example_animator_negative :: PoseAssetsAnimator where
  "example_animator_negative =
     PoseAssetsAnimator_setup example_viseme_items (Some 24) example_props_negative
       example_channelbag (PoseAssetsAnimator_init example_props_negative)"

definition example_animator_negative_rate :: PoseAssetsAnimator where
  "example_animator_negative_rate =
     PoseAssetsAnimator_setup example_viseme_items (Some (- 24)) example_props
       example_channelbag (PoseAssetsAnimator_init example_props)"

text \<open>The utterance that consists of the one word above.\<close>

definition example_utterance :: "InspectedWord list" where
  "example_utterance =
     [\<lparr>word_timing = example_timing, visemes_data = example_word,
       next_word_timing = example_timing\<rparr>]"

definition example_sps_animator :: SpriteSheetAnimator where
  "example_sps_animator = sps_setup (Some 24) example_props [] SpriteSheetAnimator_init"

section \<open>Numeric helper facts\<close>

lemma py_round_zero: "py_round 0 = 0"
  by (simp add: py_round_def)

lemma keyframes_insert_keyframe_points:
  "keyframes (insert_keyframe_points self a f) = keyframes self @ [(f, a)]"
  by (simp add: insert_keyframe_points_def)

lemma insert_on_visemes_track:
  "\<exists>xs. keyframes (insert_on_visemes prio U ps vd wt i vs self) = keyframes self @ xs
        \<and> previous_start (insert_on_visemes prio U ps vd wt i vs self)
            = (if xs = [] then previous_start self else fst (last xs))
        \<and> (xs = [] \<longrightarrow> previous_viseme (insert_on_visemes prio U ps vd wt i vs self)
                          = previous_viseme self)"
proof (induction vs arbitrary: i self)
  case Nil
  then show ?case by simp
next
  case (Cons v vs)
  define self1 where "self1 = self\<lparr>is_last_viseme := (int i + 1 = visemes_len vd)\<rparr>"
  define f where "f = word_frame_start wt + py_round (of_nat i * visemes_parts vd)"
  have k1: "keyframes self1 = keyframes self" "previous_start self1 = previous_start self"
    "previous_viseme self1 = previous_viseme self"
    by (simp_all add: self1_def)
  show ?case
  proof (cases "pose_assets_actions self1 v")
    case None
    then have eq: "insert_on_visemes prio U ps vd wt i (v # vs) self
                 = insert_on_visemes prio U ps vd wt (Suc i) vs self1"
      by (simp add: self1_def Let_def)
    show ?thesis unfolding eq using Cons.IH [of "Suc i" self1] by (simp only: k1)
  next
    case (Some a)
    show ?thesis
    proof (cases "should_skip_keyframe prio U self1 ps v f")
      case True
      with Some have eq: "insert_on_visemes prio U ps vd wt i (v # vs) self
                 = insert_on_visemes prio U ps vd wt (Suc i) vs self1"
        by (simp add: self1_def f_def Let_def)
      show ?thesis unfolding eq using Cons.IH [of "Suc i" self1] by (simp only: k1)
    next
      case False
      define self2 where
        "self2 = (insert_keyframe_points self1 a f)\<lparr>previous_start := f, previous_viseme := Some v\<rparr>"
      from False Some have eq: "insert_on_visemes prio U ps vd wt i (v # vs) self
                 = insert_on_visemes prio U ps vd wt (Suc i) vs self2"
        by (simp add: self1_def self2_def f_def Let_def)
      have k2: "keyframes self2 = keyframes self @ [(f, a)]" "previous_start self2 = f"
        by (simp_all add: self2_def keyframes_insert_keyframe_points k1)
      obtain xs where xs: "keyframes (insert_on_visemes prio U ps vd wt (Suc i) vs self2)
                             = keyframes self2 @ xs"
        "previous_start (insert_on_visemes prio U ps vd wt (Suc i) vs self2)
            = (if xs = [] then previous_start self2 else fst (last xs))"
        using Cons.IH [of "Suc i" self2] by blast
      have "keyframes (insert_on_visemes prio U ps vd wt (Suc i) vs self2)
              = keyframes self @ ((f, a) # xs)"
        using xs(1) k2(1) by simp
      moreover have "previous_start (insert_on_visemes prio U ps vd wt (Suc i) vs self2)
              = fst (last ((f, a) # xs))"
        using xs(2) k2(2) by simp
      ultimately show ?thesis unfolding eq by (intro exI [of _ "(f, a) # xs"]) simp
    qed
  qed
qed

lemma insert_silences_previous:
  "previous_start (insert_silences gfs self vd) = previous_start self"
  "previous_viseme (insert_silences gfs self vd) = previous_viseme self"
  "in_between_frame_threshold (insert_silences gfs self vd) = in_between_frame_threshold self"
  "pose_assets_actions (insert_silences gfs self vd) = pose_assets_actions self"
  by (simp_all add: insert_silences_def Let_def insert_keyframe_points_def split: option.splits)

lemma should_skip_keyframe_cong:
  assumes "previous_start s' = previous_start s" "previous_viseme s' = previous_viseme s"
    "in_between_frame_threshold s' = in_between_frame_threshold s"
  shows "should_skip_keyframe prio U s' ps v f = should_skip_keyframe prio U s ps v f"
  unfolding should_skip_keyframe_def should_skip_due_to_priority_conflict_def
    has_already_a_kframe_def is_redundant_def is_prev_kframe_too_close_def assms ..

lemma sps_word_end_loop_previous:
  "sps_previous_start (sps_word_end_loop ps vd fcs self) = sps_previous_start self
   \<and> sps_previous_viseme (sps_word_end_loop ps vd fcs self) = sps_previous_viseme self
   \<and> sps_in_between_frame_threshold (sps_word_end_loop ps vd fcs self)
       = sps_in_between_frame_threshold self
   \<and> sps_is_first_word (sps_word_end_loop ps vd fcs self) = sps_is_first_word self
   \<and> sps_channelbag (sps_word_end_loop ps vd fcs self) = sps_channelbag self
   \<and> sps_word_start_frame (sps_word_end_loop ps vd fcs self) = sps_word_start_frame self"
  by (induction fcs arbitrary: self)
     (simp_all add: Let_def sps_count_def sps_keyframe_insert_def)

lemma sps_first_word_loop_previous:
  "sps_previous_start (sps_first_word_loop gfs ps fcs self) = sps_previous_start self
   \<and> sps_previous_viseme (sps_first_word_loop gfs ps fcs self) = sps_previous_viseme self
   \<and> sps_in_between_frame_threshold (sps_first_word_loop gfs ps fcs self)
       = sps_in_between_frame_threshold self"
  by (induction fcs arbitrary: self)
     (simp_all add: Let_def sps_keyframe_insert_def)

lemma sps_insert_silences_previous:
  "sps_previous_start (sps_insert_silences gfs self ps vd) = sps_previous_start self"
  "sps_previous_viseme (sps_insert_silences gfs self ps vd) = sps_previous_viseme self"
  "sps_in_between_frame_threshold (sps_insert_silences gfs self ps vd)
     = sps_in_between_frame_threshold self"
  by (simp_all add: sps_insert_silences_def Let_def sps_word_end_loop_previous
      sps_first_word_loop_previous)

lemma sps_should_skip_cong:
  assumes "sps_previous_start s' = sps_previous_start s"
    "sps_previous_viseme s' = sps_previous_viseme s"
    "sps_in_between_frame_threshold s' = sps_in_between_frame_threshold s"
  shows "sps_should_skip s' ps v f = sps_should_skip s ps v f"
  unfolding sps_should_skip_def sps_has_already_a_kframe_def sps_is_redundant_def
    sps_is_prev_kframe_too_close_def assms ..

lemma insert_silences_prefix:
  "\<exists>xs. keyframes (insert_silences gfs self vd) = keyframes self @ xs"
  by (simp add: insert_silences_def Let_def insert_keyframe_points_def split: option.splits)

lemma emitted_append: "keyframes after = keyframes before @ xs \<Longrightarrow> emitted before after = xs"
  by (simp add: emitted_def)

lemma sps_emitted_append:
  "sps_keyframes after = sps_keyframes before @ xs \<Longrightarrow> sps_emitted before after = xs"
  by (simp add: sps_emitted_def)

lemma sps_word_end_loop_keyframes:
  "sps_keyframes (sps_word_end_loop ps vd fcs self)
     = sps_keyframes self
       @ concat (map (\<lambda>fc. replicate (if sps_is_last_word self then 2 else 1)
                         (fc,
                          ShapeKeysAnimator_get_corrected_end_frame (sps_word_start_frame self) vd
                            + sps_in_between_frame_threshold self,
                          lip_sync_2d_viseme ps ''sil'')) fcs)
   \<and> sps_is_first_word (sps_word_end_loop ps vd fcs self) = sps_is_first_word self
   \<and> sps_channelbag (sps_word_end_loop ps vd fcs self) = sps_channelbag self
   \<and> sps_word_start_frame (sps_word_end_loop ps vd fcs self) = sps_word_start_frame self
   \<and> sps_in_between_frame_threshold (sps_word_end_loop ps vd fcs self)
       = sps_in_between_frame_threshold self"
  by (induction fcs arbitrary: self)
     (simp_all add: Let_def sps_count_def sps_keyframe_insert_def numeral_2_eq_2)

lemma sps_first_word_loop_keyframes:
  "sps_keyframes (sps_first_word_loop gfs ps fcs self)
     = sps_keyframes self
       @ map (\<lambda>fc. (fc,
                     max gfs (sps_word_start_frame self
                                - max 1 (sps_in_between_frame_threshold self)),
                     lip_sync_2d_viseme ps ''sil'')) fcs"
  by (induction fcs arbitrary: self)
     (simp_all add: Let_def sps_keyframe_insert_def)

lemma sps_insert_silences_prefix:
  "\<exists>xs. sps_keyframes (sps_insert_silences gfs self ps vd) = sps_keyframes self @ xs"
  by (simp add: sps_insert_silences_def Let_def sps_word_end_loop_keyframes
      sps_first_word_loop_keyframes)

lemma sps_apply_item_keyframes:
  "sps_keyframes (sps_apply_item f x fcs self)
     = sps_keyframes self @ map (\<lambda>fc. (fc, f, x)) fcs
   \<and> sps_channelbag (sps_apply_item f x fcs self) = sps_channelbag self"
  by (induction fcs arbitrary: self)
     (simp_all add: sps_count_def sps_keyframe_insert_def)

lemma sps_insert_on_visemes_prefix:
  "\<exists>xs. sps_keyframes (sps_insert_on_visemes ps vd wt i vs self) = sps_keyframes self @ xs"
proof (induction vs arbitrary: i self)
  case Nil
  then show ?case by simp
next
  case (Cons v vs)
  define self1 where "self1 = self\<lparr>sps_is_last_viseme := (int i + 1 = visemes_len vd)\<rparr>"
  define f where "f = word_frame_start wt + py_round (of_nat i * visemes_parts vd)"
  define self2 where
    "self2 = (sps_apply_item f (lip_sync_2d_viseme ps v) (sps_channelbag self1) self1)
               \<lparr>sps_previous_start := f, sps_previous_viseme := Some v\<rparr>"
  have k1: "sps_keyframes self1 = sps_keyframes self"
    by (simp add: self1_def)
  have k2: "\<exists>ys. sps_keyframes self2 = sps_keyframes self @ ys"
    by (simp add: self2_def sps_apply_item_keyframes k1)
  have eq: "sps_insert_on_visemes ps vd wt i (v # vs) self
              = sps_insert_on_visemes ps vd wt (Suc i) vs
                  (if sps_should_skip self1 ps v f then self1 else self2)"
    by (simp add: self1_def self2_def f_def Let_def)
  show ?case
  proof (cases "sps_should_skip self1 ps v f")
    case True
    then show ?thesis unfolding eq using Cons.IH [of "Suc i" self1] by (simp only: k1 if_True)
  next
    case False
    obtain ys where ys: "sps_keyframes self2 = sps_keyframes self @ ys"
      using k2 by blast
    obtain xs where "sps_keyframes (sps_insert_on_visemes ps vd wt (Suc i) vs self2)
                       = sps_keyframes self2 @ xs"
      using Cons.IH [of "Suc i" self2] by blast
    then have "sps_keyframes (sps_insert_on_visemes ps vd wt (Suc i) vs self2)
                 = sps_keyframes self @ (ys @ xs)"
      using ys by simp
    then show ?thesis unfolding eq using False by (simp only: if_False) blast
  qed
qed

lemma py_int_of_int: "py_int (of_int k) = k"
  by (simp add: py_int_def)

lemma start_frame_even:
  assumes "even cmd \<or> cmd \<le> 2"
  shows "py_int (max (of_int gfs) (of_int ws - max 1 (of_int cmd / 2)))
           = max gfs (ws - max 1 (cmd div 2))"
proof -
  have "max (1::real) (of_int cmd / 2) = of_int (max 1 (cmd div 2))"
  proof (cases "even cmd")
    case True
    then obtain k where k: "cmd = 2 * k" by (auto elim: evenE)
    then show ?thesis by (simp add: max_def)
  next
    case False
    with assms have "cmd \<le> 2" by simp
    with False have "cmd \<le> 1" by (cases "cmd = 2") auto
    then have "cmd div 2 \<le> 0" by simp
    moreover from \<open>cmd \<le> 1\<close> have "(of_int cmd :: real) / 2 \<le> 1" by simp
    ultimately show ?thesis by (simp add: max_def)
  qed
  then have "max (of_int gfs) (of_int ws - max 1 (of_int cmd / 2))
               = (of_int (max gfs (ws - max 1 (cmd div 2))) :: real)"
    by (simp add: max_def)
  then show ?thesis by (simp only: py_int_of_int)
qed

lemma pose_is_redundant_iff:
  "is_redundant self ps v
     = (\<exists>pv. previous_viseme self = Some pv \<and> pv \<noteq> ''sil''
             \<and> lip_sync_2d_viseme_pose ps pv = lip_sync_2d_viseme_pose ps v)"
  by (cases "previous_viseme self") (simp_all add: is_redundant_def)

lemma sps_is_redundant_never_true: "\<not> truthy (sps_is_redundant self ps v)"
  by (simp add: sps_is_redundant_def split: option.splits)

lemma setup_fields:
  "previous_start (PoseAssetsAnimator_setup items (Some fps) ps cb anim) = - 1"
  "previous_viseme (PoseAssetsAnimator_setup items (Some fps) ps cb anim) = None"
  "props (PoseAssetsAnimator_setup items (Some fps) ps cb anim) = ps"
  "in_between_frame_threshold (PoseAssetsAnimator_setup items (Some fps) ps cb anim)
     = time_to_frame fps (lip_sync_2d_in_between_threshold ps)"
  "silence_frame_threshold (PoseAssetsAnimator_setup items (Some fps) ps cb anim)
     = time_to_frame fps (lip_sync_2d_sil_threshold ps)"
  "close_motion_duration (PoseAssetsAnimator_setup items (Some fps) ps cb anim)
     = time_to_frame fps (lip_sync_2d_close_motion_duration ps)"
  "pose_assets_actions (PoseAssetsAnimator_setup items (Some fps) ps cb anim) v
     = (if v \<in> set items then lip_sync_2d_viseme_pose ps v else None)"
  by (simp_all add: PoseAssetsAnimator_setup_def setup_properties_def Let_def
      get_available_actions_def)

lemma first_slot_emitted:
  assumes "previous_start self = - 1" and "previous_viseme self = None"
    and "pose_assets_actions self v = Some a"
  shows "(word_frame_start wt, a)
           \<in> set (keyframes (insert_on_visemes prio U ps vd wt 0 (v # vs) self))"
proof -
  define self1 where "self1 = self\<lparr>is_last_viseme := (int 0 + 1 = visemes_len vd)\<rparr>"
  define self2 where
    "self2 = (insert_keyframe_points self1 a (word_frame_start wt))
               \<lparr>previous_start := word_frame_start wt, previous_viseme := Some v\<rparr>"
  have noskip: "\<not> should_skip_keyframe prio U self1 ps v (word_frame_start wt)"
    using assms(1,2)
    by (simp add: self1_def should_skip_keyframe_def should_skip_due_to_priority_conflict_def
        is_redundant_def is_prev_kframe_too_close_def)
  have "pose_assets_actions self1 v = Some a"
    using assms(3) by (simp add: self1_def)
  with noskip have eq: "insert_on_visemes prio U ps vd wt 0 (v # vs) self
                          = insert_on_visemes prio U ps vd wt (Suc 0) vs self2"
    by (simp add: self1_def self2_def Let_def py_round_zero)
  have "(word_frame_start wt, a) \<in> set (keyframes self2)"
    by (simp add: self2_def keyframes_insert_keyframe_points)
  moreover obtain xs where
    "keyframes (insert_on_visemes prio U ps vd wt (Suc 0) vs self2) = keyframes self2 @ xs"
    using insert_on_visemes_track [of prio U ps vd wt "Suc 0" vs self2] by blast
  ultimately show ?thesis unfolding eq by simp
qed

lemma insert_keyframes_prefix:
  "\<exists>xs. keyframes (insert_keyframes prio U gfs ps vd wt delay is_last idx self)
          = keyframes self @ xs"
proof -
  define s1 where "s1 = set_word_properties self wt delay is_last idx"
  define s2 where "s2 = insert_silences gfs s1 vd"
  have k1: "keyframes s1 = keyframes self"
    by (simp add: s1_def set_word_properties_def)
  obtain xs where xs: "keyframes s2 = keyframes s1 @ xs"
    using insert_silences_prefix [of gfs s1 vd] s2_def by blast
  obtain ys where ys: "keyframes (insert_on_visemes prio U ps vd wt 0 (visemes vd) s2)
                         = keyframes s2 @ ys"
    using insert_on_visemes_track [of prio U ps vd wt 0 "visemes vd" s2] by blast
  have "keyframes (insert_keyframes prio U gfs ps vd wt delay is_last idx self)
          = keyframes self @ (xs @ ys)"
    using xs ys k1 by (simp add: insert_keyframes_def s1_def s2_def)
  then show ?thesis by blast
qed

lemma auto_insert_keyframes_prefix:
  "\<exists>xs. keyframes (auto_insert_keyframes (insert_keyframes prio U gfs ps) n_words i ws self)
          = keyframes self @ xs"
proof (induction ws arbitrary: i self)
  case Nil
  then show ?case by simp
next
  case (Cons w ws)
  define d where "d = word_frame_start (next_word_timing w)
                        - ShapeKeysAnimator_get_corrected_end_frame
                            (word_frame_start (word_timing w)) (visemes_data w)"
  define self1 where
    "self1 = insert_keyframes prio U gfs ps (visemes_data w) (word_timing w) d
               (int i = int n_words - 1) i self"
  have eq: "auto_insert_keyframes (insert_keyframes prio U gfs ps) n_words i (w # ws) self
              = auto_insert_keyframes (insert_keyframes prio U gfs ps) n_words (Suc i) ws self1"
    by (simp add: Let_def self1_def d_def)
  obtain xs where xs: "keyframes self1 = keyframes self @ xs"
    using insert_keyframes_prefix self1_def by blast
  obtain ys where
    "keyframes (auto_insert_keyframes (insert_keyframes prio U gfs ps) n_words (Suc i) ws self1)
       = keyframes self1 @ ys"
    using Cons.IH [of "Suc i" self1] by blast
  then have
    "keyframes (auto_insert_keyframes (insert_keyframes prio U gfs ps) n_words (Suc i) ws self1)
       = keyframes self @ (xs @ ys)"
    using xs by simp
  then show ?case unfolding eq by blast
qed

section \<open>Claims\<close>

text \<open>
  C1 as the claim states it: of two visemes with priorities 1 and 3 that land on the same
  frame, the emitted event always carries the priority-1 viseme. In the one-frame word both
  slots land on frame 10; \<open>aa\<close> (priority 3) comes first and is emitted, \<open>PP\<close> (priority 1)
  passes the priority check and is then skipped as too close, so the only event on frame 10
  carries the priority-3 viseme. With the two visemes in the other order the event carries
  \<open>PP\<close>: the outcome depends on the input order.
\<close>

theorem C1_counterexample:
  "visemes example_word = [''aa'', ''PP'']
   \<and> word_frame_start example_timing + py_round (of_nat 0 * visemes_parts example_word) = 10
   \<and> word_frame_start example_timing + py_round (of_nat 1 * visemes_parts example_word) = 10
   \<and> example_priority ''aa'' = 3
   \<and> example_priority ''PP'' = 1
   \<and> lip_sync_2d_viseme_pose example_props ''aa'' = Some ''pose_aa''
   \<and> lip_sync_2d_viseme_pose example_props ''PP'' = Some ''pose_PP''
   \<and> keyframes
       (insert_on_visemes example_priority example_unskippable example_props example_word
          example_timing 0 (visemes example_word) example_animator)
     = [(10, ''pose_aa'')]
   \<and> keyframes
       (insert_on_visemes example_priority example_unskippable example_props
          (example_word\<lparr>visemes := [''PP'', ''aa'']\<rparr>)
          example_timing 0 [''PP'', ''aa''] example_animator)
     = [(10, ''pose_PP'')]"
  by code_simp

text \<open>
  C1, amended. In the pose-assets animator, for a slot whose frame equals \<open>previous_start\<close>
  while a previous viseme is known, the priority check skips the current viseme if and only
  if its priority value is numerically greater than the previous viseme's. Then the slot is
  skipped; on a tie or a smaller value it goes on to the redundancy and spacing checks, which
  may still skip it: with \<open>previous_start\<close> and the in-between threshold non-negative the slot
  is too close, and it is emitted only if it is not redundant and \<open>prioritize_accuracy\<close> lets
  an unskippable viseme through. So a viseme is never emitted on the frame of an already
  emitted viseme of better priority, while one of better priority that arrives second is
  emitted only if it passes the later checks. The sprite-sheet animator skips every slot on
  the frame of \<open>previous_start\<close>, whatever the priorities.
\<close>

theorem C1_priority_conflict:
  assumes "f = previous_start self" and "previous_viseme self = Some pv" and "pv \<noteq> []"
  shows "should_skip_due_to_priority_conflict prio self v f = (prio pv < prio v)
         \<and> (prio pv < prio v \<longrightarrow> should_skip_keyframe prio U self ps v f)
         \<and> (\<not> prio pv < prio v \<longrightarrow>
              should_skip_keyframe prio U self ps v f
                = (is_redundant self ps v
                   \<or> (is_prev_kframe_too_close self f \<and> should_skip_due_to_timing U ps v)))
         \<and> (\<not> prio pv < prio v \<and> 0 \<le> previous_start self
              \<and> 0 \<le> in_between_frame_threshold self \<longrightarrow>
              should_skip_keyframe prio U self ps v f
                = (is_redundant self ps v \<or> should_skip_due_to_timing U ps v))
         \<and> (f = sps_previous_start s \<longrightarrow> sps_should_skip s ps v f)"
proof -
  have conflict: "should_skip_due_to_priority_conflict prio self v f = (prio pv < prio v)"
    using assms by (simp add: should_skip_due_to_priority_conflict_def has_already_a_kframe_def)
  have close: "0 \<le> previous_start self \<and> 0 \<le> in_between_frame_threshold self \<longrightarrow>
                 is_prev_kframe_too_close self f"
    using assms(1) by (simp add: is_prev_kframe_too_close_def)
  show ?thesis
    using close
    by (auto simp add: conflict should_skip_keyframe_def sps_should_skip_def
        sps_has_already_a_kframe_def)
qed

theorem C1_priority_conflict_witness:
  "(10 :: int) = previous_start (example_animator\<lparr>previous_start := 10, previous_viseme := Some ''aa''\<rparr>)
   \<and> \<not> should_skip_due_to_priority_conflict example_priority
         (example_animator\<lparr>previous_start := 10, previous_viseme := Some ''aa''\<rparr>) ''PP'' 10
   \<and> should_skip_keyframe example_priority example_unskippable
         (example_animator\<lparr>previous_start := 10, previous_viseme := Some ''aa''\<rparr>)
         example_props ''PP'' 10
   \<and> should_skip_due_to_priority_conflict example_priority
         (example_animator\<lparr>previous_start := 10, previous_viseme := Some ''PP''\<rparr>) ''aa'' 10
   \<and> should_skip_keyframe example_priority example_unskippable
         (example_animator\<lparr>previous_start := 10, previous_viseme := Some ''PP''\<rparr>)
         example_props ''aa'' 10
   \<and> sps_should_skip (example_sps_animator\<lparr>sps_previous_start := 10\<rparr>) example_props
         ''PP'' 10"
  using C1_priority_conflict
          [of 10 "example_animator\<lparr>previous_start := 10, previous_viseme := Some ''aa''\<rparr>"
              "''aa''" example_priority "''PP''" example_unskippable example_props
              "example_sps_animator\<lparr>sps_previous_start := 10\<rparr>"]
        C1_priority_conflict
          [of 10 "example_animator\<lparr>previous_start := 10, previous_viseme := Some ''PP''\<rparr>"
              "''PP''" example_priority "''aa''" example_unskippable example_props
              "example_sps_animator\<lparr>sps_previous_start := 10\<rparr>"]
  by code_simp

text \<open>
  C2 as the claim states it: in each backend the checks run in the order priority conflict,
  redundancy, minimum spacing. The sprite-sheet animator calls its spacing check before its
  redundancy check.
\<close>

theorem C2_counterexample:
  "fst (sps_should_skip_calls
          (example_sps_animator\<lparr>sps_previous_start := 10, sps_previous_viseme := Some ''aa''\<rparr>)
          example_props ''PP'' 14)
     = [Has_already_a_kframe, Is_prev_kframe_too_close, Is_redundant]
   \<and> \<not> follows_spec_order
         (fst (sps_should_skip_calls
                 (example_sps_animator\<lparr>sps_previous_start := 10,
                                          sps_previous_viseme := Some ''aa''\<rparr>)
                 example_props ''PP'' 14))"
  by code_simp

text \<open>
  C2, amended. The pose-assets animator evaluates the skip checks in the order priority
  conflict, redundancy, minimum spacing, and the first check that yields skip ends the
  evaluation. The sprite-sheet animator evaluates them in the order same-frame, minimum
  spacing, redundancy, with the same short-circuit.
\<close>

theorem C2_check_order:
  "snd (should_skip_keyframe_calls prio U self ps v f) = should_skip_keyframe prio U self ps v f
   \<and> follows_spec_order (fst (should_skip_keyframe_calls prio U self ps v f))
   \<and> fst (should_skip_keyframe_calls prio U self ps v f)
     = (if should_skip_due_to_priority_conflict prio self v f
        then [Should_skip_due_to_priority_conflict]
        else if is_redundant self ps v
        then [Should_skip_due_to_priority_conflict, Is_redundant]
        else [Should_skip_due_to_priority_conflict, Is_redundant, Is_prev_kframe_too_close])
   \<and> snd (sps_should_skip_calls s ps v f) = sps_should_skip s ps v f
   \<and> fst (sps_should_skip_calls s ps v f)
     = (if sps_has_already_a_kframe s f
        then [Has_already_a_kframe]
        else if sps_is_prev_kframe_too_close s f
        then [Has_already_a_kframe, Is_prev_kframe_too_close]
        else [Has_already_a_kframe, Is_prev_kframe_too_close, Is_redundant])"
  by (simp add: should_skip_keyframe_calls_def should_skip_keyframe_def
      sps_should_skip_calls_def sps_should_skip_def follows_spec_order_def upt_rec)

theorem C2_check_order_witness:
  "should_skip_keyframe_calls example_priority example_unskippable
     (example_animator\<lparr>previous_start := 10, previous_viseme := Some ''aa''\<rparr>)
     example_props ''O'' 14
     = ([Should_skip_due_to_priority_conflict, Is_redundant], True)
   \<and> should_skip_keyframe example_priority example_unskippable
       (example_animator\<lparr>previous_start := 10, previous_viseme := Some ''aa''\<rparr>)
       example_props ''O'' 14
   \<and> sps_should_skip_calls
       (example_sps_animator\<lparr>sps_previous_start := 10, sps_previous_viseme := Some ''aa''\<rparr>)
       example_props ''PP'' 11
     = ([Has_already_a_kframe, Is_prev_kframe_too_close], True)"
  using C2_check_order
          [of example_priority example_unskippable
              "example_animator\<lparr>previous_start := 10, previous_viseme := Some ''aa''\<rparr>"
              example_props "''O''" 14
              "example_sps_animator\<lparr>sps_previous_start := 10,
                                      sps_previous_viseme := Some ''aa''\<rparr>"]
  by code_simp

text \<open>
  C3 as the claim states it: with \<open>prioritize_accuracy\<close> on, a too-close slot is skipped if
  and only if its viseme is not unskippable. The unskippable \<open>PP\<close>, one frame after a \<open>PP\<close>
  keyframe, is skipped as redundant; the unskippable \<open>FF\<close>, on the frame of a \<open>PP\<close> keyframe
  of better priority, is skipped by the priority check.
\<close>

theorem C3_counterexample:
  "0 \<le> previous_start (example_animator\<lparr>previous_start := 10, previous_viseme := Some ''PP''\<rparr>)
   \<and> 11 - previous_start (example_animator\<lparr>previous_start := 10, previous_viseme := Some ''PP''\<rparr>)
       \<le> in_between_frame_threshold
            (example_animator\<lparr>previous_start := 10, previous_viseme := Some ''PP''\<rparr>)
   \<and> lip_sync_2d_prioritize_accuracy example_props_accuracy
   \<and> lower ''PP'' \<in> example_unskippable
   \<and> should_skip_keyframe example_priority example_unskippable
        (example_animator\<lparr>previous_start := 10, previous_viseme := Some ''PP''\<rparr>)
        example_props_accuracy ''PP'' 11
   \<and> lower ''FF'' \<in> example_unskippable
   \<and> should_skip_keyframe example_priority example_unskippable
        (example_animator\<lparr>previous_start := 10, previous_viseme := Some ''PP''\<rparr>)
        example_props_accuracy ''FF'' 10"
  by code_simp

text \<open>
  C3, amended. In the pose-assets animator, a too-close slot (\<open>previous_start \<ge> 0\<close> and
  \<open>slot_frame - previous_start \<le> in_between_frame_threshold\<close>) is skipped when
  \<open>prioritize_accuracy\<close> is false. When it is true, the slot is skipped if and only if the
  priority check or the redundancy check skips it or its lower-cased viseme is not in the
  unskippable set; so an unskippable viseme that passes the first two checks is emitted even
  when too close.
\<close>

theorem C3_too_close:
  assumes "0 \<le> previous_start self"
    and "f - previous_start self \<le> in_between_frame_threshold self"
  shows "(\<not> lip_sync_2d_prioritize_accuracy ps \<longrightarrow> should_skip_keyframe prio U self ps v f)
         \<and> (lip_sync_2d_prioritize_accuracy ps \<longrightarrow>
              should_skip_keyframe prio U self ps v f
                = (should_skip_due_to_priority_conflict prio self v f
                   \<or> is_redundant self ps v \<or> lower v \<notin> U))
         \<and> (lip_sync_2d_prioritize_accuracy ps
              \<and> \<not> should_skip_due_to_priority_conflict prio self v f
              \<and> \<not> is_redundant self ps v \<longrightarrow>
              should_skip_keyframe prio U self ps v f = (lower v \<notin> U))"
proof -
  have close: "is_prev_kframe_too_close self f"
    using assms by (simp add: is_prev_kframe_too_close_def)
  show ?thesis
    by (simp add: close should_skip_keyframe_def should_skip_due_to_timing_def)
qed

theorem C3_too_close_witness:
  "0 \<le> previous_start (example_animator\<lparr>previous_start := 10, previous_viseme := Some ''aa''\<rparr>)
   \<and> 11 - previous_start (example_animator\<lparr>previous_start := 10, previous_viseme := Some ''aa''\<rparr>)
       \<le> in_between_frame_threshold
            (example_animator\<lparr>previous_start := 10, previous_viseme := Some ''aa''\<rparr>)
   \<and> should_skip_keyframe example_priority example_unskippable
        (example_animator\<lparr>previous_start := 10, previous_viseme := Some ''aa''\<rparr>)
        example_props ''PP'' 11
   \<and> \<not> should_skip_keyframe example_priority example_unskippable
        (example_animator\<lparr>previous_start := 10, previous_viseme := Some ''aa''\<rparr>)
        example_props_accuracy ''PP'' 11
   \<and> should_skip_keyframe example_priority example_unskippable
        (example_animator\<lparr>previous_start := 10, previous_viseme := Some ''PP''\<rparr>)
        example_props_accuracy ''aa'' 11"
  using C3_too_close
          [of "example_animator\<lparr>previous_start := 10, previous_viseme := Some ''aa''\<rparr>" 11
              example_props example_priority example_unskippable "''PP''"]
        C3_too_close
          [of "example_animator\<lparr>previous_start := 10, previous_viseme := Some ''aa''\<rparr>" 11
              example_props_accuracy example_priority example_unskippable "''PP''"]
        C3_too_close
          [of "example_animator\<lparr>previous_start := 10, previous_viseme := Some ''PP''\<rparr>" 11
              example_props_accuracy example_priority example_unskippable "''aa''"]
  by code_simp

text \<open>
  C4. A slot whose previous viseme is known and is not silence is skipped as redundant exactly
  when the two visemes have the same configured value. The pose-assets animator does this
  (\<open>pose_is_redundant_iff\<close>). The sprite-sheet animator's \<open>is_redundant\<close> has no \<open>return\<close> after
  its guard, so it never yields a true value (\<open>sps_is_redundant_never_true\<close>). For the visemes
  \<open>aa\<close> and \<open>O\<close>, which share sprite index 2, it yields \<open>None\<close> and the slot is not skipped: a
  word with these two visemes gets two keyframes of the same value, where the pose-assets
  animator emits one.
\<close>

theorem C4_sps_is_redundant_falls_through:
  "sps_previous_viseme
     (example_sps_animator\<lparr>sps_previous_start := 10, sps_previous_viseme := Some ''aa''\<rparr>)
     = Some ''aa''
   \<and> lip_sync_2d_viseme example_props ''aa'' = lip_sync_2d_viseme example_props ''O''
   \<and> sps_is_redundant
       (example_sps_animator\<lparr>sps_previous_start := 10, sps_previous_viseme := Some ''aa''\<rparr>)
       example_props ''O'' = None
   \<and> \<not> sps_should_skip
         (example_sps_animator\<lparr>sps_previous_start := 10, sps_previous_viseme := Some ''aa''\<rparr>)
         example_props ''O'' 14
   \<and> sps_keyframes
       (sps_insert_on_visemes example_props
          \<lparr>visemes = [''aa'', ''O''], visemes_len = 2, visemes_parts = 4\<rparr>
          example_timing 0 [''aa'', ''O''] example_sps_animator)
     = [(''lipsync2d_props.lip_sync_2d_sprite_sheet_index'', 10, 2),
        (''lipsync2d_props.lip_sync_2d_sprite_sheet_index'', 14, 2)]
   \<and> keyframes
       (insert_on_visemes example_priority example_unskippable example_props
          \<lparr>visemes = [''aa'', ''O''], visemes_len = 2, visemes_parts = 4\<rparr>
          example_timing 0 [''aa'', ''O''] example_animator)
     = [(10, ''pose_aa'')]"
  by code_simp

text \<open>
  C5. For every word start \<open>w\<close> and viseme data with \<open>visemes_len = n \<ge> 1\<close> and
  \<open>visemes_parts = p\<close>, the corrected end frame is \<open>w + round(p * (n - 1))\<close>; for \<open>n = 1\<close> it
  is \<open>w\<close> itself, and when \<open>p = span / n\<close> it is \<open>w + round(span * (n - 1) / n)\<close>.
\<close>

theorem C5_corrected_end_frame:
  assumes "1 \<le> visemes_len d"
  shows "get_corrected_end_frame w d
           = w + py_round (visemes_parts d * of_int (visemes_len d - 1))
         \<and> (visemes_len d = 1 \<longrightarrow> get_corrected_end_frame w d = w)
         \<and> (visemes_parts d = frame_span / of_int (visemes_len d) \<longrightarrow>
              get_corrected_end_frame w d
                = w + py_round (frame_span * of_int (visemes_len d - 1)
                                  / of_int (visemes_len d)))"
proof (intro conjI impI)
  show "get_corrected_end_frame w d
          = w + py_round (visemes_parts d * of_int (visemes_len d - 1))"
    by (simp add: get_corrected_end_frame_def)
next
  assume "visemes_len d = 1"
  then show "get_corrected_end_frame w d = w"
    by (simp add: get_corrected_end_frame_def py_round_zero)
next
  assume "visemes_parts d = frame_span / of_int (visemes_len d)"
  then show "get_corrected_end_frame w d
               = w + py_round (frame_span * of_int (visemes_len d - 1)
                                 / of_int (visemes_len d))"
    by (simp add: get_corrected_end_frame_def)
qed

theorem C5_corrected_end_frame_witness:
  "get_corrected_end_frame 10
       \<lparr>visemes = [''PP'', ''aa'', ''O''], visemes_len = 3, visemes_parts = 7 / 3\<rparr> = 15
   \<and> get_corrected_end_frame 10
       \<lparr>visemes = [''PP''], visemes_len = 1, visemes_parts = 7\<rparr> = 10"
  using C5_corrected_end_frame
          [of "\<lparr>visemes = [''PP'', ''aa'', ''O''], visemes_len = 3, visemes_parts = 7 / 3\<rparr>"
              10 7]
        C5_corrected_end_frame
          [of "\<lparr>visemes = [''PP''], visemes_len = 1, visemes_parts = 7\<rparr>" 10 7]
  by (simp add: py_round_def)

text \<open>
  C6 as the claim states it: for the last word, the silence pass emits exactly one end-of-word
  silence event, at \<open>corrected_end_frame + close_motion_duration\<close>. With no pose configured
  for silence, the pose-assets animator returns before it emits anything. The sprite-sheet
  animator, which has no \<open>close_motion_duration\<close>, keys the silence at
  \<open>corrected_end_frame + in_between_frame_threshold\<close>: frame 11 where the claim gives
  10 + 5 = 15.
\<close>

theorem C6_counterexample:
  "is_last_word (set_word_properties example_animator_no_sil example_timing 0 True 1)
   \<and> keyframes
       (insert_silences 0
          (set_word_properties example_animator_no_sil example_timing 0 True 1)
          example_word) = []
   \<and> sps_is_last_word (sps_set_word_properties example_sps_animator example_timing 0 True 1)
   \<and> ShapeKeysAnimator_get_corrected_end_frame (word_frame_start example_timing)
         example_word = 10
   \<and> time_to_frame 24 (lip_sync_2d_close_motion_duration example_props) = 5
   \<and> sps_keyframes
       (sps_insert_silences 0
          (sps_set_word_properties example_sps_animator example_timing 0 True 1)
          example_props example_word)
     = [(''lipsync2d_props.lip_sync_2d_sprite_sheet_index'', 11, 0),
        (''lipsync2d_props.lip_sync_2d_sprite_sheet_index'', 11, 0)]"
  by code_simp

text \<open>
  C6, amended. In the pose-assets animator with a pose configured for silence, the silence
  pass of the last word emits exactly one end-of-word silence event, at
  \<open>corrected_end_frame + close_motion_duration\<close> (followed by the start-of-utterance silence
  when the word is also the first); with no such pose it emits nothing. In the sprite-sheet
  animator the end-of-word silence of the last word is keyed at
  \<open>corrected_end_frame + in_between_frame_threshold\<close>.
\<close>

theorem C6_last_word_silence:
  "(is_last_word self \<and> lip_sync_2d_viseme_pose (props self) ''sil'' = Some a \<longrightarrow>
      emitted self (insert_silences gfs self vd)
        = (ShapeKeysAnimator_get_corrected_end_frame (word_start_frame self) vd
             + close_motion_duration self, a)
          # (if is_first_word self
             then [(py_int (max (of_int gfs)
                               (of_int (word_start_frame self)
                                  - max 1 (of_int (close_motion_duration self) / 2))), a)]
             else []))
   \<and> (lip_sync_2d_viseme_pose (props self) ''sil'' = None \<longrightarrow>
        emitted self (insert_silences gfs self vd) = [])
   \<and> (sps_is_last_word s \<longrightarrow>
        set (map (\<lambda>e. fst (snd e))
               (sps_emitted s
                  (sps_insert_silences gfs (s\<lparr>sps_is_first_word := False\<rparr>) ps vd)))
          = (if sps_channelbag s = [] then {}
             else {ShapeKeysAnimator_get_corrected_end_frame (sps_word_start_frame s) vd
                     + sps_in_between_frame_threshold s}))"
proof (intro conjI impI)
  assume "is_last_word self \<and> lip_sync_2d_viseme_pose (props self) ''sil'' = Some a"
  then have "keyframes (insert_silences gfs self vd)
        = keyframes self @ (ShapeKeysAnimator_get_corrected_end_frame (word_start_frame self) vd
             + close_motion_duration self, a)
          # (if is_first_word self
             then [(py_int (max (of_int gfs)
                               (of_int (word_start_frame self)
                                  - max 1 (of_int (close_motion_duration self) / 2))), a)]
             else [])"
    by (simp add: insert_silences_def Let_def insert_keyframe_points_def)
  then show "emitted self (insert_silences gfs self vd)
        = (ShapeKeysAnimator_get_corrected_end_frame (word_start_frame self) vd
             + close_motion_duration self, a)
          # (if is_first_word self
             then [(py_int (max (of_int gfs)
                               (of_int (word_start_frame self)
                                  - max 1 (of_int (close_motion_duration self) / 2))), a)]
             else [])"
    by (rule emitted_append)
next
  assume "lip_sync_2d_viseme_pose (props self) ''sil'' = None"
  then show "emitted self (insert_silences gfs self vd) = []"
    by (simp add: insert_silences_def Let_def emitted_def)
next
  assume last: "sps_is_last_word s"
  define s0 where "s0 = s\<lparr>sps_is_first_word := False\<rparr>"
  define e where "e = (\<lambda>fc::string. (fc,
       ShapeKeysAnimator_get_corrected_end_frame (sps_word_start_frame s) vd
         + sps_in_between_frame_threshold s, lip_sync_2d_viseme ps ''sil''))"
  have "sps_keyframes (sps_insert_silences gfs s0 ps vd)
          = sps_keyframes s @ concat (map (\<lambda>fc. replicate 2 (e fc)) (sps_channelbag s))"
    using last
    by (simp add: sps_insert_silences_def Let_def sps_word_end_loop_keyframes s0_def e_def)
  then have "sps_emitted s (sps_insert_silences gfs s0 ps vd)
          = concat (map (\<lambda>fc. replicate 2 (e fc)) (sps_channelbag s))"
    by (rule sps_emitted_append)
  then show "set (map (\<lambda>e. fst (snd e))
               (sps_emitted s
                  (sps_insert_silences gfs (s\<lparr>sps_is_first_word := False\<rparr>) ps vd)))
          = (if sps_channelbag s = [] then {}
             else {ShapeKeysAnimator_get_corrected_end_frame (sps_word_start_frame s) vd
                     + sps_in_between_frame_threshold s})"
    unfolding s0_def [symmetric] by (cases "sps_channelbag s") (auto simp: e_def)
qed

theorem C6_last_word_silence_witness:
  "is_last_word
     (set_word_properties (example_animator\<lparr>close_motion_duration := 6\<rparr>)
        \<lparr>word_frame_start = 100, word_frame_end = 110\<rparr> 0 True 1)
   \<and> emitted
       (set_word_properties (example_animator\<lparr>close_motion_duration := 6\<rparr>)
          \<lparr>word_frame_start = 100, word_frame_end = 110\<rparr> 0 True 1)
       (insert_silences 0
          (set_word_properties (example_animator\<lparr>close_motion_duration := 6\<rparr>)
             \<lparr>word_frame_start = 100, word_frame_end = 110\<rparr> 0 True 1)
          \<lparr>visemes = [''aa''], visemes_len = 1, visemes_parts = 10\<rparr>)
     = [(106, ''pose_sil'')]
   \<and> emitted (set_word_properties example_animator_no_sil example_timing 0 True 1)
       (insert_silences 0
          (set_word_properties example_animator_no_sil example_timing 0 True 1)
          example_word)
     = []
   \<and> set (map (\<lambda>e. fst (snd e))
            (sps_emitted
               (sps_set_word_properties example_sps_animator example_timing 0 True 1)
               (sps_insert_silences 0
                  ((sps_set_word_properties example_sps_animator example_timing 0 True 1)
                     \<lparr>sps_is_first_word := False\<rparr>)
                  example_props example_word)))
     = {11}"
  using C6_last_word_silence
          [of "set_word_properties (example_animator\<lparr>close_motion_duration := 6\<rparr>)
                 \<lparr>word_frame_start = 100, word_frame_end = 110\<rparr> 0 True 1"
              "''pose_sil''" 0
              "\<lparr>visemes = [''aa''], visemes_len = 1, visemes_parts = 10\<rparr>"
              "sps_set_word_properties example_sps_animator example_timing 0 True 1"
              example_props]
        C6_last_word_silence
          [of "set_word_properties example_animator_no_sil example_timing 0 True 1"
              "''pose_sil''" 0 example_word
              "sps_set_word_properties example_sps_animator example_timing 0 True 1"
              example_props]
  by code_simp

text \<open>
  C7 as the claim states it: the first word's silence pass emits one start-of-utterance silence
  event at \<open>max(timeline_frame_start, word_frame_start - max(1, close_motion_duration / 2))\<close>.
  With the default closing motion of 5 frames and a word starting at frame 10, the
  pose-assets animator keys it at frame 7, which is \<open>int(7.5)\<close>: neither 7.5 nor, with an
  integer division, 8. With no pose configured for silence it emits nothing.
\<close>

theorem C7_counterexample:
  "is_first_word (set_word_properties example_animator example_timing 0 False 0)
   \<and> word_start_frame (set_word_properties example_animator example_timing 0 False 0) = 10
   \<and> close_motion_duration (set_word_properties example_animator example_timing 0 False 0)
     = 5
   \<and> keyframes
       (insert_silences 0 (set_word_properties example_animator example_timing 0 False 0)
          example_word) = [(7, ''pose_sil'')]
   \<and> (7 :: real) \<noteq> max 0 (10 - max 1 (5 / 2))
   \<and> (7 :: int) \<noteq> max 0 (10 - max 1 (5 div 2))
   \<and> is_first_word (set_word_properties example_animator_no_sil example_timing 0 False 0)
   \<and> keyframes
       (insert_silences 0
          (set_word_properties example_animator_no_sil example_timing 0 False 0)
          example_word) = []"
  by code_simp

text \<open>
  C7, amended. In the pose-assets animator with a pose configured for silence, the first
  word's silence pass ends with one start-of-utterance silence event, at
  \<open>max(timeline_frame_start, word_frame_start - max(1, close_motion_duration / 2))\<close> truncated
  towards zero by \<open>int\<close>; that is the claimed frame whenever \<open>close_motion_duration\<close> is even
  or at most 2 (word start 10, duration 6, timeline start 0 give frame 7). The sprite-sheet
  animator keys it, once per F-curve, at
  \<open>max(timeline_frame_start, word_frame_start - max(1, in_between_frame_threshold))\<close>.
\<close>

theorem C7_first_word_silence:
  "(is_first_word self \<and> lip_sync_2d_viseme_pose (props self) ''sil'' = Some a \<longrightarrow>
      keyframes (insert_silences gfs self vd)
        = keyframes (insert_silences gfs (self\<lparr>is_first_word := False\<rparr>) vd)
          @ [(py_int (max (of_int gfs)
                         (of_int (word_start_frame self)
                            - max 1 (of_int (close_motion_duration self) / 2))), a)])
   \<and> (even (close_motion_duration self) \<or> close_motion_duration self \<le> 2 \<longrightarrow>
        py_int (max (of_int gfs)
                  (of_int (word_start_frame self)
                     - max 1 (of_int (close_motion_duration self) / 2)))
          = max gfs (word_start_frame self - max 1 (close_motion_duration self div 2)))
   \<and> (sps_is_first_word s \<longrightarrow>
        sps_keyframes (sps_insert_silences gfs s ps vd)
          = sps_keyframes (sps_insert_silences gfs (s\<lparr>sps_is_first_word := False\<rparr>) ps vd)
            @ map (\<lambda>fc. (fc,
                          max gfs (sps_word_start_frame s
                                     - max 1 (sps_in_between_frame_threshold s)),
                          lip_sync_2d_viseme ps ''sil'')) (sps_channelbag s))"
proof (intro conjI impI)
  assume "is_first_word self \<and> lip_sync_2d_viseme_pose (props self) ''sil'' = Some a"
  then show "keyframes (insert_silences gfs self vd)
        = keyframes (insert_silences gfs (self\<lparr>is_first_word := False\<rparr>) vd)
          @ [(py_int (max (of_int gfs)
                         (of_int (word_start_frame self)
                            - max 1 (of_int (close_motion_duration self) / 2))), a)]"
    by (simp add: insert_silences_def Let_def insert_keyframe_points_def)
next
  assume "even (close_motion_duration self) \<or> close_motion_duration self \<le> 2"
  then show "py_int (max (of_int gfs)
                  (of_int (word_start_frame self)
                     - max 1 (of_int (close_motion_duration self) / 2)))
          = max gfs (word_start_frame self - max 1 (close_motion_duration self div 2))"
    by (rule start_frame_even)
next
  assume "sps_is_first_word s"
  then show "sps_keyframes (sps_insert_silences gfs s ps vd)
          = sps_keyframes (sps_insert_silences gfs (s\<lparr>sps_is_first_word := False\<rparr>) ps vd)
            @ map (\<lambda>fc. (fc,
                          max gfs (sps_word_start_frame s
                                     - max 1 (sps_in_between_frame_threshold s)),
                          lip_sync_2d_viseme ps ''sil'')) (sps_channelbag s)"
    by (simp add: sps_insert_silences_def Let_def sps_word_end_loop_keyframes
        sps_first_word_loop_keyframes)
qed

theorem C7_first_word_silence_witness:
  "is_first_word
     (set_word_properties (example_animator\<lparr>close_motion_duration := 6\<rparr>) example_timing
        0 False 0)
   \<and> keyframes
       (insert_silences 0
          (set_word_properties (example_animator\<lparr>close_motion_duration := 6\<rparr>)
             example_timing 0 False 0)
          example_word)
     = [(7, ''pose_sil'')]
   \<and> (7 :: int) = max 0 (10 - max 1 (6 div 2))
   \<and> sps_is_first_word
       (sps_set_word_properties example_sps_animator example_timing 0 False 0)
   \<and> sps_keyframes
       (sps_insert_silences 0
          (sps_set_word_properties example_sps_animator example_timing 0 False 0)
          example_props example_word)
     = [(''lipsync2d_props.lip_sync_2d_sprite_sheet_index'', 9, 0)]"
  using C7_first_word_silence
          [of "set_word_properties (example_animator\<lparr>close_motion_duration := 6\<rparr>)
                 example_timing 0 False 0"
              "''pose_sil''" 0 example_word
              "sps_set_word_properties example_sps_animator example_timing 0 False 0"
              example_props]
  by code_simp

text \<open>
  C8 as the claim states it: in the aggregated stream, each word's silence events come after
  that word's viseme events. For the one-word utterance of the concrete configuration the
  pose-assets animator emits the two silence keyframes (frames 15 and 7) first and the viseme
  keyframe (frame 10) last, so the statement fails.
\<close>

theorem C8_counterexample:
  "keyframes
     (insert_keyframes example_priority example_unskippable 0 example_props example_word
        example_timing 0 True 0 example_animator)
     = [(15, ''pose_sil''), (7, ''pose_sil''), (10, ''pose_aa'')]
   \<and> emitted (set_word_properties example_animator example_timing 0 True 0)
       (insert_silences 0 (set_word_properties example_animator example_timing 0 True 0)
          example_word)
     = [(15, ''pose_sil''), (7, ''pose_sil'')]
   \<and> emitted
       (insert_silences 0 (set_word_properties example_animator example_timing 0 True 0)
          example_word)
       (insert_on_visemes example_priority example_unskippable example_props example_word
          example_timing 0 (visemes example_word)
          (insert_silences 0 (set_word_properties example_animator example_timing 0 True 0)
             example_word))
     = [(10, ''pose_aa'')]"
  by code_simp

text \<open>
  C8, amended. \<open>insert_keyframes\<close> calls \<open>insert_silences\<close> before it walks the visemes, in
  both animators: what a word appends to the keyframe list is what its silence pass emits,
  followed by what its viseme pass emits.
\<close>

theorem C8_silences_precede_visemes:
  "keyframes (insert_keyframes prio U gfs ps vd wt delay is_last idx self)
     = keyframes self
       @ emitted (set_word_properties self wt delay is_last idx)
           (insert_silences gfs (set_word_properties self wt delay is_last idx) vd)
       @ emitted (insert_silences gfs (set_word_properties self wt delay is_last idx) vd)
           (insert_on_visemes prio U ps vd wt 0 (visemes vd)
              (insert_silences gfs (set_word_properties self wt delay is_last idx) vd))
   \<and> sps_keyframes (sps_insert_keyframes gfs ps vd wt delay is_last idx s)
     = sps_keyframes s
       @ sps_emitted (sps_set_word_properties s wt delay is_last idx)
           (sps_insert_silences gfs (sps_set_word_properties s wt delay is_last idx) ps vd)
       @ sps_emitted
           (sps_insert_silences gfs (sps_set_word_properties s wt delay is_last idx) ps vd)
           (sps_insert_on_visemes ps vd wt 0 (visemes vd)
              (sps_insert_silences gfs (sps_set_word_properties s wt delay is_last idx) ps
                 vd))"
proof
  define s1 where "s1 = set_word_properties self wt delay is_last idx"
  define s2 where "s2 = insert_silences gfs s1 vd"
  define s3 where "s3 = insert_on_visemes prio U ps vd wt 0 (visemes vd) s2"
  have k1: "keyframes s1 = keyframes self"
    by (simp add: s1_def set_word_properties_def)
  obtain xs where xs: "keyframes s2 = keyframes s1 @ xs"
    using insert_silences_prefix [of gfs s1 vd] s2_def by blast
  obtain ys where ys: "keyframes s3 = keyframes s2 @ ys"
    using insert_on_visemes_track [of prio U ps vd wt 0 "visemes vd" s2] s3_def by blast
  have "keyframes s3 = keyframes self @ emitted s1 s2 @ emitted s2 s3"
    using xs ys k1 by (simp add: emitted_append)
  then show "keyframes (insert_keyframes prio U gfs ps vd wt delay is_last idx self)
     = keyframes self
       @ emitted (set_word_properties self wt delay is_last idx)
           (insert_silences gfs (set_word_properties self wt delay is_last idx) vd)
       @ emitted (insert_silences gfs (set_word_properties self wt delay is_last idx) vd)
           (insert_on_visemes prio U ps vd wt 0 (visemes vd)
              (insert_silences gfs (set_word_properties self wt delay is_last idx) vd))"
    by (simp add: insert_keyframes_def s1_def s2_def s3_def)
next
  define s1 where "s1 = sps_set_word_properties s wt delay is_last idx"
  define s2 where "s2 = sps_insert_silences gfs s1 ps vd"
  define s3 where "s3 = sps_insert_on_visemes ps vd wt 0 (visemes vd) s2"
  have k1: "sps_keyframes s1 = sps_keyframes s"
    by (simp add: s1_def sps_set_word_properties_def)
  obtain xs where xs: "sps_keyframes s2 = sps_keyframes s1 @ xs"
    using sps_insert_silences_prefix [of gfs s1 ps vd] s2_def by blast
  obtain ys where ys: "sps_keyframes s3 = sps_keyframes s2 @ ys"
    using sps_insert_on_visemes_prefix [of ps vd wt 0 "visemes vd" s2] s3_def by blast
  have "sps_keyframes s3 = sps_keyframes s @ sps_emitted s1 s2 @ sps_emitted s2 s3"
    using xs ys k1 by (simp add: sps_emitted_append)
  then show "sps_keyframes (sps_insert_keyframes gfs ps vd wt delay is_last idx s)
     = sps_keyframes s
       @ sps_emitted (sps_set_word_properties s wt delay is_last idx)
           (sps_insert_silences gfs (sps_set_word_properties s wt delay is_last idx) ps vd)
       @ sps_emitted
           (sps_insert_silences gfs (sps_set_word_properties s wt delay is_last idx) ps vd)
           (sps_insert_on_visemes ps vd wt 0 (visemes vd)
              (sps_insert_silences gfs (sps_set_word_properties s wt delay is_last idx) ps
                 vd))"
    by (simp add: sps_insert_keyframes_def s1_def s2_def s3_def)
qed

theorem C8_silences_precede_visemes_witness:
  "keyframes
     (insert_keyframes example_priority example_unskippable 0 example_props example_word
        example_timing 0 True 0 example_animator)
     = [] @ [(15, ''pose_sil''), (7, ''pose_sil'')] @ [(10, ''pose_aa'')]
   \<and> sps_keyframes
       (sps_insert_keyframes 0 example_props example_word example_timing 0 True 0
          example_sps_animator)
     = [] @ [(''lipsync2d_props.lip_sync_2d_sprite_sheet_index'', 11, 0),
             (''lipsync2d_props.lip_sync_2d_sprite_sheet_index'', 11, 0),
             (''lipsync2d_props.lip_sync_2d_sprite_sheet_index'', 9, 0)]
          @ [(''lipsync2d_props.lip_sync_2d_sprite_sheet_index'', 10, 2)]"
  using C8_silences_precede_visemes
          [of example_priority example_unskippable 0 example_props example_word
              example_timing 0 True 0 example_animator example_sps_animator]
  by code_simp

text \<open>
  C9 as the claim states it: a run configured with a negative frame rate or a negative
  threshold fails before any word is processed, and no keyframe is emitted. With both
  thresholds at minus one second the setup stores a threshold of -24 frames and the run over
  the one-word utterance emits four keyframes; at -24 frames per second it stores -1 and the
  run emits keyframes as well.
\<close>

theorem C9_counterexample:
  "lip_sync_2d_in_between_threshold example_props_negative < 0
   \<and> lip_sync_2d_sil_threshold example_props_negative < 0
   \<and> in_between_frame_threshold example_animator_negative = - 24
   \<and> silence_frame_threshold example_animator_negative = - 24
   \<and> keyframes
       (auto_insert_keyframes
          (insert_keyframes example_priority example_unskippable 0 example_props_negative)
          1 0 example_utterance example_animator_negative)
     = [(15, ''pose_sil''), (7, ''pose_sil''), (10, ''pose_aa''), (10, ''pose_PP'')]
   \<and> time_conversion example_animator_negative_rate = Some (- 24)
   \<and> in_between_frame_threshold example_animator_negative_rate = - 1
   \<and> keyframes
       (auto_insert_keyframes
          (insert_keyframes example_priority example_unskippable 0 example_props)
          1 0 example_utterance example_animator_negative_rate)
     = [(5, ''pose_sil''), (9, ''pose_sil''), (10, ''pose_aa''), (10, ''pose_PP'')]"
  by code_simp

text \<open>
  C9, amended. The setup checks nothing: for any frame rate and any thresholds, negative ones
  included, it stores the thresholds converted to frames, and the driver then processes the
  words. In the pose-assets animator the first viseme of the first word is emitted at the
  word's start frame whenever it is a viseme of the catalogue with a pose configured,
  whatever the frame rate and the thresholds are.
\<close>

theorem C9_no_config_check:
  assumes "visemes (visemes_data w) = v # vs" and "v \<in> set viseme_items"
    and "lip_sync_2d_viseme_pose ps v = Some a"
  shows "in_between_frame_threshold
           (PoseAssetsAnimator_setup viseme_items (Some fps) ps cb anim)
           = time_to_frame fps (lip_sync_2d_in_between_threshold ps)
         \<and> silence_frame_threshold
             (PoseAssetsAnimator_setup viseme_items (Some fps) ps cb anim)
           = time_to_frame fps (lip_sync_2d_sil_threshold ps)
         \<and> close_motion_duration
             (PoseAssetsAnimator_setup viseme_items (Some fps) ps cb anim)
           = time_to_frame fps (lip_sync_2d_close_motion_duration ps)
         \<and> (word_frame_start (word_timing w), a)
             \<in> set (keyframes
                      (auto_insert_keyframes (insert_keyframes prio U gfs ps) n_words 0
                         (w # ws)
                         (PoseAssetsAnimator_setup viseme_items (Some fps) ps cb anim)))"
proof -
  define S where "S = PoseAssetsAnimator_setup viseme_items (Some fps) ps cb anim"
  define d where "d = word_frame_start (next_word_timing w)
                        - ShapeKeysAnimator_get_corrected_end_frame
                            (word_frame_start (word_timing w)) (visemes_data w)"
  define s1 where
    "s1 = set_word_properties S (word_timing w) d (int 0 = int n_words - 1) 0"
  define s2 where "s2 = insert_silences gfs s1 (visemes_data w)"
  define S1 where
    "S1 = insert_keyframes prio U gfs ps (visemes_data w) (word_timing w) d
            (int 0 = int n_words - 1) 0 S"
  have s1: "previous_start s1 = - 1" "previous_viseme s1 = None"
    "pose_assets_actions s1 v = Some a"
    using assms(2,3) by (simp_all add: s1_def S_def set_word_properties_def setup_fields)
  have s2: "previous_start s2 = - 1" "previous_viseme s2 = None"
    "pose_assets_actions s2 v = Some a"
    using s1 by (simp_all add: s2_def insert_silences_previous)
  have "S1 = insert_on_visemes prio U ps (visemes_data w) (word_timing w) 0 (v # vs) s2"
    using assms(1) by (simp add: S1_def insert_keyframes_def s2_def s1_def)
  then have first: "(word_frame_start (word_timing w), a) \<in> set (keyframes S1)"
    using first_slot_emitted [OF s2] by simp
  have eq: "auto_insert_keyframes (insert_keyframes prio U gfs ps) n_words 0 (w # ws) S
              = auto_insert_keyframes (insert_keyframes prio U gfs ps) n_words (Suc 0) ws S1"
    by (simp add: Let_def S1_def d_def)
  obtain xs where
    "keyframes (auto_insert_keyframes (insert_keyframes prio U gfs ps) n_words (Suc 0) ws S1)
       = keyframes S1 @ xs"
    using auto_insert_keyframes_prefix by blast
  with first have
    "(word_frame_start (word_timing w), a)
       \<in> set (keyframes
                (auto_insert_keyframes (insert_keyframes prio U gfs ps) n_words 0 (w # ws) S))"
    unfolding eq by simp
  then show ?thesis by (simp add: S_def setup_fields)
qed

theorem C9_no_config_check_witness:
  "visemes (visemes_data (hd example_utterance)) = ''aa'' # [''PP'']
   \<and> ''aa'' \<in> set example_viseme_items
   \<and> lip_sync_2d_viseme_pose example_props_negative ''aa'' = Some ''pose_aa''
   \<and> in_between_frame_threshold
       (PoseAssetsAnimator_setup example_viseme_items (Some 24) example_props_negative
          example_channelbag (PoseAssetsAnimator_init example_props_negative)) = - 24
   \<and> (10, ''pose_aa'')
       \<in> set (keyframes
                (auto_insert_keyframes
                   (insert_keyframes example_priority example_unskippable 0
                      example_props_negative)
                   1 0 [hd example_utterance]
                   (PoseAssetsAnimator_setup example_viseme_items (Some 24)
                      example_props_negative example_channelbag
                      (PoseAssetsAnimator_init example_props_negative))))"
  using C9_no_config_check
          [of "hd example_utterance" "''aa''" "[''PP'']" example_viseme_items
              example_props_negative "''pose_aa''" 24 example_channelbag
              "PoseAssetsAnimator_init example_props_negative"
              example_priority example_unskippable 0 1 "[]"]
  by code_simp

text \<open>
  C10. Inserting the word-boundary silences leaves the carried scheduler state alone:
  \<open>previous_start\<close> and \<open>previous_viseme\<close> are the same after \<open>insert_silences\<close> as before, in
  both animators, so every later skip decision is the one that would have been taken without
  the silence events. Only the viseme pass updates them: after it, \<open>previous_start\<close> is the
  frame of the last keyframe it emitted, and both are unchanged when it emitted none.
\<close>

theorem C10_silences_leave_carried_state:
  "previous_start (insert_silences gfs self vd) = previous_start self
   \<and> previous_viseme (insert_silences gfs self vd) = previous_viseme self
   \<and> should_skip_keyframe prio U (insert_silences gfs self vd) ps v f
       = should_skip_keyframe prio U self ps v f
   \<and> sps_previous_start (sps_insert_silences gfs s ps' vd) = sps_previous_start s
   \<and> sps_previous_viseme (sps_insert_silences gfs s ps' vd) = sps_previous_viseme s
   \<and> sps_should_skip (sps_insert_silences gfs s ps' vd) ps v f = sps_should_skip s ps v f
   \<and> previous_start (insert_on_visemes prio U ps vd wt i vs self)
       = (if keyframes (insert_on_visemes prio U ps vd wt i vs self) = keyframes self
          then previous_start self
          else fst (last (keyframes (insert_on_visemes prio U ps vd wt i vs self))))
   \<and> (keyframes (insert_on_visemes prio U ps vd wt i vs self) = keyframes self
        \<longrightarrow> previous_viseme (insert_on_visemes prio U ps vd wt i vs self)
              = previous_viseme self)"
proof -
  obtain xs where xs:
    "keyframes (insert_on_visemes prio U ps vd wt i vs self) = keyframes self @ xs"
    "previous_start (insert_on_visemes prio U ps vd wt i vs self)
       = (if xs = [] then previous_start self else fst (last xs))"
    "xs = [] \<longrightarrow> previous_viseme (insert_on_visemes prio U ps vd wt i vs self)
                     = previous_viseme self"
    using insert_on_visemes_track [of prio U ps vd wt i vs self] by blast
  have pass: "previous_start (insert_on_visemes prio U ps vd wt i vs self)
       = (if keyframes (insert_on_visemes prio U ps vd wt i vs self) = keyframes self
          then previous_start self
          else fst (last (keyframes (insert_on_visemes prio U ps vd wt i vs self))))"
    using xs(1,2) by simp
  have pass2: "keyframes (insert_on_visemes prio U ps vd wt i vs self) = keyframes self
        \<longrightarrow> previous_viseme (insert_on_visemes prio U ps vd wt i vs self)
              = previous_viseme self"
    using xs(1,3) by simp
  show ?thesis
    using pass pass2
    by (simp add: insert_silences_previous sps_insert_silences_previous
        should_skip_keyframe_cong [OF insert_silences_previous(1-3)]
        sps_should_skip_cong [OF sps_insert_silences_previous])
qed

theorem C10_silences_leave_carried_state_witness:
  "previous_start
     (insert_silences 0 (set_word_properties example_animator example_timing 0 True 0)
        example_word) = - 1
   \<and> previous_viseme
       (insert_silences 0 (set_word_properties example_animator example_timing 0 True 0)
          example_word) = None
   \<and> keyframes
       (insert_silences 0 (set_word_properties example_animator example_timing 0 True 0)
          example_word) = [(15, ''pose_sil''), (7, ''pose_sil'')]
   \<and> keyframes
       (insert_on_visemes example_priority example_unskippable example_props example_word
          example_timing 0 [''E'']
          (set_word_properties example_animator example_timing 0 True 0))
       = keyframes (set_word_properties example_animator example_timing 0 True 0)
   \<and> previous_viseme
       (insert_on_visemes example_priority example_unskippable example_props example_word
          example_timing 0 [''E'']
          (set_word_properties example_animator example_timing 0 True 0)) = None"
  using C10_silences_leave_carried_state
          [of 0 "set_word_properties example_animator example_timing 0 True 0" example_word
              example_priority example_unskippable example_props "''aa''" 10
              example_sps_animator example_props example_timing 0 "[''E'']"]
  by code_simp

end
